theory Spec2Isabelle
  imports Complex_Main "HOL-Library.AList"
begin

section \<open>Conventions of the embedding\<close>

text \<open>
  The Python sources are \<^verbatim>\<open>src/ml/basal_reservoir_engine.py\<close> and
  \<^verbatim>\<open>src/ml/gct_basal_integration.py\<close>.  Python and NumPy floats are modelled as
  \<^typ>\<open>real\<close> (no rounding, no NaN, no infinities; the overflow of the traditional
  psi is modelled apart, under the names ending in \<^verbatim>\<open>_fl\<close>), Python ints as \<^typ>\<open>int\<close>,
  list lengths and node indices as \<^typ>\<open>nat\<close>.  A \<^verbatim>\<open>Dict[int, float]\<close> is an
  association list in insertion order, as Python dicts are.  Calls of
  \<^verbatim>\<open>np.random\<close> and of \<^verbatim>\<open>datetime.now\<close> read an explicit argument.  A
  leading underscore of a Python name is dropped, and the fields \<^verbatim>\<open>psi, rho, q, f\<close>
  of \<^verbatim>\<open>GCTDimensions\<close> carry the prefix \<^verbatim>\<open>gct_\<close>.
\<close>

datatype py_error = TypeError | ZeroDivisionError | ValueError

type_synonym pydict = "(nat \<times> real) list"

definition dict_get :: "pydict \<Rightarrow> nat \<Rightarrow> real \<Rightarrow> real" where
  "dict_get d k dflt = (case map_of d k of None \<Rightarrow> dflt | Some v \<Rightarrow> v)"

definition dict_has :: "pydict \<Rightarrow> nat \<Rightarrow> bool" where
  "dict_has d k = (map_of d k \<noteq> None)"

text \<open>\<^verbatim>\<open>d[k] = v\<close>: an existing key keeps its place, a new key goes to the end.\<close>

definition dict_set :: "pydict \<Rightarrow> nat \<Rightarrow> real \<Rightarrow> pydict" where
  "dict_set d k v = AList.update k v d"

text \<open>\<^verbatim>\<open>xs[-n:]\<close> for a positive \<open>n\<close>.\<close>

definition last_n :: "nat \<Rightarrow> 'a list \<Rightarrow> 'a list" where
  "last_n n xs = drop (length xs - n) xs"

definition np_clip :: "real \<Rightarrow> real \<Rightarrow> real \<Rightarrow> real" where
  "np_clip x lo hi = min hi (max lo x)"

definition np_mean :: "real list \<Rightarrow> real" where
  "np_mean xs = sum_list xs / real (length xs)"

definition np_var :: "real list \<Rightarrow> real" where
  "np_var xs = np_mean (map (\<lambda>x. (x - np_mean xs)\<^sup>2) xs)"

definition np_std :: "real list \<Rightarrow> real" where
  "np_std xs = sqrt (np_var xs)"

section \<open>Configuration and nodes\<close>

record BasalReservoirConfig =
  num_nodes :: int
  spatial_dimension :: int
  learning_rate :: real
  energy_decay :: real
  connection_radius :: real
  homeodynamic_strength :: real
  coherence_coupling :: real
  adaptation_rate :: real
  prediction_horizon :: int

record GCTDimensions =
  gct_psi :: real
  gct_rho :: real
  gct_q :: real
  gct_f :: real

record BasalReservoirNode =
  node_id :: nat
  position :: "real list"
  config :: BasalReservoirConfig
  energy :: real
  target_energy :: real
  activation :: real
  incoming_weights :: pydict
  outgoing_weights :: pydict
  activation_history :: "real list"
  energy_history :: "real list"

text \<open>
  \<^verbatim>\<open>BasalReservoirNode.update_energy\<close>.  The returned activation is the field
  \<open>activation\<close> of the returned node.
\<close>

definition update_energy :: "BasalReservoirNode \<Rightarrow> pydict \<Rightarrow> pydict \<Rightarrow> BasalReservoirNode" where
  "update_energy n input_signals neighbor_activations =
     (let input_sum = sum_list (map (\<lambda>(source_id, signal).
                          dict_get (incoming_weights n) source_id 0 * signal) input_signals);
          neighbor_sum = sum_list (map (\<lambda>(neighbor_id, act).
                          dict_get (incoming_weights n) neighbor_id 0 * act) neighbor_activations);
          energy_input = input_sum + 0.8 * neighbor_sum;
          act = tanh energy_input;
          energy_error = energy n - target_energy n;
          e1 = energy n * energy_decay (config n) + 0.1 * act - 0.05 * energy_error;
          e2 = np_clip e1 0 1;
          ah = activation_history n @ [act];
          eh = energy_history n @ [e2]
      in n\<lparr>energy := e2, activation := act,
            activation_history := (if length ah > 100 then tl ah else ah),
            energy_history := (if length ah > 100 then tl eh else eh)\<rparr>)"

text \<open>
  The weight loop of \<^verbatim>\<open>homeodynamic_learning\<close>: one pass over the items of
  \<^verbatim>\<open>neighbor_states\<close>, writing \<^verbatim>\<open>incoming_weights\<close> in place.
\<close>

definition learn_item :: "real \<Rightarrow> real \<Rightarrow> real \<Rightarrow> nat \<times> real \<Rightarrow> pydict \<Rightarrow> pydict" where
  "learn_item rate energy_error total_weighted_input item w =
     (case item of (neighbor_id, neighbor_activation) \<Rightarrow>
        if dict_has w neighbor_id then
          (let current_weight = dict_get w neighbor_id 0;
               weight_delta = rate * energy_error * neighbor_activation * current_weight
                                / total_weighted_input;
               new_weight = current_weight - weight_delta
           in dict_set w neighbor_id (np_clip new_weight (- 2) 2))
        else w)"

definition homeodynamic_learning :: "BasalReservoirNode \<Rightarrow> pydict \<Rightarrow> BasalReservoirNode" where
  "homeodynamic_learning n neighbor_states =
     (if neighbor_states = [] then n
      else
        let energy_error = energy n - target_energy n;
            total_weighted_input = sum_list (map (\<lambda>nid.
                 dict_get neighbor_states nid 0 * dict_get (incoming_weights n) nid 0)
                 (map fst neighbor_states))
        in if \<bar>total_weighted_input\<bar> < 1 / 1000000 then n
           else n\<lparr>incoming_weights :=
                    fold (learn_item (learning_rate (config n)) energy_error total_weighted_input)
                         neighbor_states (incoming_weights n)\<rparr>)"

definition adapt_target_energy :: "BasalReservoirNode \<Rightarrow> BasalReservoirNode" where
  "adapt_target_energy n =
     (if length (energy_history n) \<ge> 10 then
        (let recent_energy = last_n 10 (energy_history n);
             energy_variance = np_var recent_energy
         in if energy_variance < 0.01 then
              n\<lparr>target_energy := max 0.2 (target_energy n - adaptation_rate (config n))\<rparr>
            else if energy_variance > 0.1 then
              n\<lparr>target_energy := min 0.8 (target_energy n + adaptation_rate (config n))\<rparr>
            else n)
      else n)"

section \<open>The engine\<close>

record BasalReservoirEngine =
  engine_config :: BasalReservoirConfig
  nodes :: "BasalReservoirNode list"
  adjacency_matrix :: "real list list"
  coherence_state :: GCTDimensions
  gamma :: real
  delta :: real
  epsilon :: real
  phi :: real
  coherence_history :: "real list"
  anticipation_history :: "real list"
  coherence_evolution_history :: "real list"
  engine_prediction_accuracy :: real
  engine_adaptation_efficiency :: real

text \<open>
  The draws of \<^verbatim>\<open>np.random\<close> during construction, one entry per call: the
  coordinates of \<^verbatim>\<open>np.random.uniform(0, 1, (num_nodes, spatial_dimension))\<close>, the
  \<^verbatim>\<open>np.random.uniform(0.3, 0.7)\<close> and \<^verbatim>\<open>np.random.uniform(0.4, 0.6)\<close> of node
  \<open>i\<close>, and the \<^verbatim>\<open>np.random.normal(0, 0.2)\<close> of the incoming and outgoing weight
  between nodes \<open>i\<close> and \<open>j\<close>.
\<close>

record rng_draws =
  position_draw :: "nat \<Rightarrow> nat \<Rightarrow> real"
  energy_draw :: "nat \<Rightarrow> real"
  target_draw :: "nat \<Rightarrow> real"
  incoming_normal :: "nat \<Rightarrow> nat \<Rightarrow> real"
  outgoing_normal :: "nat \<Rightarrow> nat \<Rightarrow> real"

definition node_init :: "rng_draws \<Rightarrow> nat \<Rightarrow> real list \<Rightarrow> BasalReservoirConfig \<Rightarrow> BasalReservoirNode" where
  "node_init rng i pos cfg =
     \<lparr>node_id = i, position = pos, config = cfg,
      energy = energy_draw rng i, target_energy = target_draw rng i, activation = 0,
      incoming_weights = [], outgoing_weights = [],
      activation_history = [], energy_history = []\<rparr>"

text \<open>\<^verbatim>\<open>np.linalg.norm(a - b)\<close> of two coordinate vectors of the same length.\<close>

definition norm_diff :: "real list \<Rightarrow> real list \<Rightarrow> real" where
  "norm_diff a b = sqrt (sum_list (map (\<lambda>(x, y). (x - y)\<^sup>2) (zip a b)))"

definition build_spatial_connectivity :: "BasalReservoirConfig \<Rightarrow> BasalReservoirNode list \<Rightarrow> real list list" where
  "build_spatial_connectivity cfg ns =
     map (\<lambda>i. map (\<lambda>j.
            if i \<noteq> j then
              (let distance = norm_diff (position (ns ! i)) (position (ns ! j))
               in if distance < connection_radius cfg
                  then exp (- distance / (connection_radius cfg / 2)) else 0)
            else 0) [0..<length ns]) [0..<length ns]"

text \<open>
  \<^verbatim>\<open>_initialize_connection_weights\<close> for node \<open>i\<close>: incoming weights read column
  \<open>i\<close> of the matrix, outgoing weights row \<open>i\<close>.
\<close>

definition initialize_node_weights :: "rng_draws \<Rightarrow> real list list \<Rightarrow> nat \<Rightarrow> BasalReservoirNode \<Rightarrow> BasalReservoirNode" where
  "initialize_node_weights rng adj i n =
     n\<lparr>incoming_weights :=
          fold (\<lambda>j w. let connection_strength = adj ! j ! i in
                  if connection_strength > 0
                  then dict_set w j (incoming_normal rng i j * connection_strength) else w)
               [0..<length adj] (incoming_weights n),
        outgoing_weights :=
          fold (\<lambda>j w. let connection_strength = adj ! i ! j in
                  if connection_strength > 0
                  then dict_set w j (outgoing_normal rng i j * connection_strength) else w)
               [0..<length adj] (outgoing_weights n)\<rparr>"

definition build_engine :: "BasalReservoirConfig \<Rightarrow> rng_draws \<Rightarrow> BasalReservoirEngine" where
  "build_engine cfg rng =
     (let n = nat (num_nodes cfg);
          d = nat (spatial_dimension cfg);
          ns0 = map (\<lambda>i. node_init rng i (map (position_draw rng i) [0..<d]) cfg) [0..<n];
          adj = build_spatial_connectivity cfg ns0;
          ns1 = map (\<lambda>i. initialize_node_weights rng adj i (ns0 ! i)) [0..<n]
      in \<lparr>engine_config = cfg, nodes = ns1, adjacency_matrix = adj,
          coherence_state = \<lparr>gct_psi = 0.5, gct_rho = 0.5, gct_q = 0.5, gct_f = 0.5\<rparr>,
          gamma = 0.1, delta = 0.15, epsilon = 0.05, phi = coherence_coupling cfg,
          coherence_history = [], anticipation_history = [],
          coherence_evolution_history = [],
          engine_prediction_accuracy = 0, engine_adaptation_efficiency = 0\<rparr>)"

text \<open>
  \<^verbatim>\<open>BasalReservoirEngine.__init__\<close>: \<^verbatim>\<open>np.random.uniform\<close> raises
  \<^verbatim>\<open>ValueError\<close> on a negative dimension of the requested shape.
\<close>

definition BasalReservoirEngine_init :: "BasalReservoirConfig \<Rightarrow> rng_draws \<Rightarrow> py_error + BasalReservoirEngine" where
  "BasalReservoirEngine_init cfg rng =
     (if num_nodes cfg < 0 \<or> spatial_dimension cfg < 0 then Inl ValueError
      else Inr (build_engine cfg rng))"

text \<open>The body of the loop of \<^verbatim>\<open>update_reservoir_state\<close> for one node.\<close>

definition neighbor_states_of :: "pydict \<Rightarrow> BasalReservoirNode \<Rightarrow> pydict" where
  "neighbor_states_of current_activations node =
     filter (\<lambda>(nid, act). nid \<noteq> node_id node \<and> dict_has (incoming_weights node) nid)
            current_activations"

definition node_pass :: "pydict \<Rightarrow> pydict \<Rightarrow> BasalReservoirNode \<Rightarrow> BasalReservoirNode" where
  "node_pass external_inputs current_activations node =
     (let neighbor_states = neighbor_states_of current_activations node;
          node1 = update_energy node external_inputs neighbor_states;
          node2 = homeodynamic_learning node1 neighbor_states
      in adapt_target_energy node2)"

text \<open>
  The loop itself: the nodes are objects mutated in place, so the list of nodes is a store
  written at index \<open>i\<close>, and the node is read from the store as it is when its turn comes.
  The dictionary \<^verbatim>\<open>current_activations\<close> is built once, before the loop.
\<close>

fun update_loop :: "pydict \<Rightarrow> pydict \<Rightarrow> nat list \<Rightarrow> BasalReservoirNode list \<times> real list
                      \<Rightarrow> BasalReservoirNode list \<times> real list" where
  "update_loop external_inputs current_activations [] st = st"
| "update_loop external_inputs current_activations (i # rest) (store, new_activations) =
     (let node' = node_pass external_inputs current_activations (store ! i)
      in update_loop external_inputs current_activations rest
           (store[i := node'], new_activations @ [activation node']))"

text \<open>\<^verbatim>\<open>{node.node_id: node.activation for node in self.nodes}\<close>\<close>

definition activation_snapshot :: "BasalReservoirNode list \<Rightarrow> pydict" where
  "activation_snapshot ns = fold (\<lambda>n d. dict_set d (node_id n) (activation n)) ns []"

definition update_reservoir_state :: "BasalReservoirEngine \<Rightarrow> pydict option \<Rightarrow> BasalReservoirEngine \<times> real list" where
  "update_reservoir_state e external_inputs =
     (let ext = (case external_inputs of None \<Rightarrow> [] | Some d \<Rightarrow> d);
          current_activations = activation_snapshot (nodes e);
          (store, new_activations) =
             update_loop ext current_activations [0..<length (nodes e)] (nodes e, [])
      in (e\<lparr>nodes := store\<rparr>, new_activations))"

text \<open>
  The reference update the specification describes: a snapshot of the activations, then
  update of all nodes from the snapshot, then learning of all nodes, then target adaptation
  of all nodes; the new activation vector is returned in the order of the nodes.
\<close>

definition sync_reference :: "BasalReservoirEngine \<Rightarrow> pydict option \<Rightarrow> BasalReservoirEngine \<times> real list" where
  "sync_reference e external_inputs =
     (let ext = (case external_inputs of None \<Rightarrow> [] | Some d \<Rightarrow> d);
          snapshot = activation_snapshot (nodes e);
          updated = map (\<lambda>n. update_energy n ext (neighbor_states_of snapshot n)) (nodes e);
          learned = map (\<lambda>n. homeodynamic_learning n (neighbor_states_of snapshot n)) updated;
          adapted = map adapt_target_energy learned
      in (e\<lparr>nodes := adapted\<rparr>, map activation updated))"

text \<open>Any number of engine steps, one external input map (or none) per step.\<close>

fun run_steps :: "BasalReservoirEngine \<Rightarrow> pydict option list \<Rightarrow> BasalReservoirEngine" where
  "run_steps e [] = e"
| "run_steps e (x # xs) = run_steps (fst (update_reservoir_state e x)) xs"

subsection \<open>Coherence, anticipation and prediction\<close>

definition compute_symbolic_acceptance :: "BasalReservoirEngine \<Rightarrow> real" where
  "compute_symbolic_acceptance e =
     (let activations = map activation (nodes e);
          variance = np_var activations
      in exp (- 2 * variance))"

text \<open>\<^verbatim>\<open>np.fft.fft\<close>: the discrete Fourier transform of a real sequence.\<close>

definition np_fft :: "real list \<Rightarrow> complex list" where
  "np_fft xs =
     map (\<lambda>j. \<Sum>k<length xs. complex_of_real (xs ! k)
                  * cis (- 2 * pi * real j * real k / real (length xs)))
         [0..<length xs]"

text \<open>
  \<^verbatim>\<open>np.argmax\<close>: the index of the first occurrence of the maximum;
  \<^verbatim>\<open>ValueError\<close> on an empty sequence.
\<close>

fun argmax_from :: "nat \<Rightarrow> nat \<Rightarrow> real \<Rightarrow> real list \<Rightarrow> nat" where
  "argmax_from i best best_value [] = best"
| "argmax_from i best best_value (x # xs) =
     (if x > best_value then argmax_from (Suc i) i x xs
      else argmax_from (Suc i) best best_value xs)"

definition np_argmax :: "real list \<Rightarrow> py_error + nat" where
  "np_argmax xs = (case xs of [] \<Rightarrow> Inl ValueError | x # rest \<Rightarrow> Inr (argmax_from 1 0 x rest))"

definition compute_symbolic_frequency :: "BasalReservoirEngine \<Rightarrow> py_error + real" where
  "compute_symbolic_frequency e =
     (if length (coherence_history e) < 5 then Inr (gct_f (coherence_state e))
      else
        let recent_coherence = last_n 20 (coherence_history e);
            fft_power = map cmod (np_fft recent_coherence)
        in case np_argmax (drop 1 (take (length fft_power div 2) fft_power)) of
             Inl err \<Rightarrow> Inl err
           | Inr am \<Rightarrow>
               let dominant_frequency = am + 1;
                   normalized_freq = real dominant_frequency / real (length recent_coherence)
               in Inr (min 1 (normalized_freq * 5)))"

definition compute_mental_activity :: "BasalReservoirEngine \<Rightarrow> real" where
  "compute_mental_activity e =
     (if length (nodes e) = 0 then 0
      else
        let energy_changes =
              map (\<lambda>n. \<bar>energy_history n ! (length (energy_history n) - 1)
                        - energy_history n ! (length (energy_history n) - 2)\<bar>)
                  (filter (\<lambda>n. length (energy_history n) \<ge> 2) (nodes e))
        in if energy_changes \<noteq> [] then np_mean energy_changes else 0)"

definition compute_enhanced_coherence :: "BasalReservoirEngine \<Rightarrow> py_error + BasalReservoirEngine \<times> real" where
  "compute_enhanced_coherence e =
     (let energy_deviations = map (\<lambda>n. energy n - target_energy n) (nodes e);
          basal_contribution = phi e * sum_list energy_deviations;
          P_t = compute_symbolic_acceptance e
      in case compute_symbolic_frequency e of
           Inl err \<Rightarrow> Inl err
         | Inr F_t \<Rightarrow>
             let M_t = compute_mental_activity e;
                 coherence_derivative =
                   - gamma e * P_t + delta e * F_t - epsilon e * M_t + basal_contribution;
                 new_psi = gct_psi (coherence_state e) + 0.01 * coherence_derivative;
                 clipped = np_clip new_psi 0 1
             in Inr (e\<lparr>coherence_state := (coherence_state e)\<lparr>gct_psi := clipped\<rparr>,
                       coherence_history := coherence_history e @ [clipped]\<rparr>, clipped))"

definition compute_anticipation_capacity :: "BasalReservoirEngine \<Rightarrow> BasalReservoirEngine \<times> real" where
  "compute_anticipation_capacity e =
     (let energy_deviations = map (\<lambda>n. energy n - target_energy n) (nodes e);
          anticipation = phi e * sum_list energy_deviations
      in (e\<lparr>anticipation_history := anticipation_history e @ [anticipation]\<rparr>, anticipation))"

text \<open>\<^verbatim>\<open>get_reservoir_state\<close>: a dictionary from strings to numbers, in insertion order.\<close>

definition get_reservoir_state :: "BasalReservoirEngine \<Rightarrow> (string \<times> real) list" where
  "get_reservoir_state e =
     [(''num_nodes'', real (length (nodes e))),
      (''average_energy'', np_mean (map energy (nodes e))),
      (''energy_variance'', np_var (map energy (nodes e))),
      (''average_activation'', np_mean (map activation (nodes e))),
      (''enhanced_coherence'', gct_psi (coherence_state e)),
      (''anticipation_capacity'',
         if anticipation_history e \<noteq> [] then last (anticipation_history e) else 0),
      (''connection_density'', np_mean (map (\<lambda>n. real (length (incoming_weights n))) (nodes e)))]"

text \<open>\<^verbatim>\<open>state.get(key, default)\<close> on such a dictionary.\<close>

definition state_get :: "(string \<times> real) list \<Rightarrow> string \<Rightarrow> real \<Rightarrow> real" where
  "state_get d k dflt = (case map_of d k of None \<Rightarrow> dflt | Some v \<Rightarrow> v)"

definition encode_market_data :: "BasalReservoirEngine \<Rightarrow> real list \<Rightarrow> pydict" where
  "encode_market_data e market_data =
     (if length market_data = 0 then []
      else
        let normalized_data =
              map (\<lambda>x. (x - np_mean market_data) / (np_std market_data + 1 / 100000000)) market_data;
            num_input_nodes = min (length (nodes e) div 4) (length normalized_data)
        in fold (\<lambda>i inputs.
                   let nid = i * (length (nodes e) div num_input_nodes)
                   in if i < length normalized_data
                      then dict_set inputs nid (normalized_data ! i) else inputs)
                [0..<num_input_nodes] [])"

text \<open>
  \<^verbatim>\<open>np.average(a, weights=w)\<close> raises \<^verbatim>\<open>ZeroDivisionError\<close> when the weights
  sum to zero, which is the case for an empty array.
\<close>

definition np_average :: "real list \<Rightarrow> real list \<Rightarrow> py_error + real" where
  "np_average a w =
     (if sum_list w = 0 then Inl ZeroDivisionError
      else Inr (sum_list (map (\<lambda>(x, y). x * y) (zip a w)) / sum_list w))"

definition decode_prediction :: "real list \<Rightarrow> real \<Rightarrow> real \<Rightarrow> py_error + real" where
  "decode_prediction activations coherence anticipation =
     (case np_average activations (map (\<lambda>a. \<bar>a\<bar> + 0.1) activations) of
        Inl err \<Rightarrow> Inl err
      | Inr weighted_activation \<Rightarrow>
          Inr (0.6 * weighted_activation + 0.3 * coherence + 0.1 * anticipation))"

text \<open>\<^verbatim>\<open>np.zeros(k)\<close> and \<^verbatim>\<open>range(k)\<close> for a Python int \<open>k\<close>.\<close>

definition np_zeros :: "int \<Rightarrow> py_error + real list" where
  "np_zeros k = (if k < 0 then Inl ValueError else Inr (replicate (nat k) 0))"

definition py_range :: "int \<Rightarrow> nat list" where
  "py_range k = [0..<nat k]"

text \<open>
  The loop of \<^verbatim>\<open>predict_market_pattern\<close>.  An exception leaves the engine as the
  steps before it have mutated it, so the engine is returned beside the error.
\<close>

fun predict_loop :: "pydict \<Rightarrow> nat list \<Rightarrow> BasalReservoirEngine \<Rightarrow> real list
                       \<Rightarrow> BasalReservoirEngine \<times> (py_error + real list)" where
  "predict_loop market_inputs [] e predictions = (e, Inr predictions)"
| "predict_loop market_inputs (step # rest) e predictions =
     (case (if step = 0 then update_reservoir_state e (Some market_inputs)
            else update_reservoir_state e None) of
        (e1, activations) \<Rightarrow>
          (case compute_enhanced_coherence e1 of
             Inl err \<Rightarrow> (e1, Inl err)
           | Inr (e2, coherence) \<Rightarrow>
               (case compute_anticipation_capacity e2 of
                  (e3, anticipation) \<Rightarrow>
                    (case decode_prediction activations coherence anticipation of
                       Inl err \<Rightarrow> (e3, Inl err)
                     | Inr prediction \<Rightarrow>
                         predict_loop market_inputs rest e3 (predictions @ [prediction])))))"

definition predict_market_pattern :: "BasalReservoirEngine \<Rightarrow> real list \<Rightarrow> int
                                        \<Rightarrow> BasalReservoirEngine \<times> (py_error + real list)" where
  "predict_market_pattern e market_data steps_ahead =
     (if length market_data < 10 then (e, np_zeros steps_ahead)
      else
        let market_inputs = encode_market_data e (last_n 10 market_data)
        in predict_loop market_inputs (py_range steps_ahead) e [])"

text \<open>\<^verbatim>\<open>create_basal_reservoir_engine\<close> and \<^verbatim>\<open>BasalReservoirConfig()\<close>.\<close>

definition BasalReservoirConfig_default :: BasalReservoirConfig where
  "BasalReservoirConfig_default =
     \<lparr>num_nodes = 100, spatial_dimension = 2, learning_rate = 0.01, energy_decay = 0.95,
      connection_radius = 0.3, homeodynamic_strength = 0.1, coherence_coupling = 0.05,
      adaptation_rate = 0.001, prediction_horizon = 10\<rparr>"

definition create_basal_reservoir_engine :: "BasalReservoirConfig option \<Rightarrow> rng_draws
                                               \<Rightarrow> py_error + BasalReservoirEngine" where
  "create_basal_reservoir_engine cfg rng =
     BasalReservoirEngine_init (case cfg of None \<Rightarrow> BasalReservoirConfig_default | Some c \<Rightarrow> c) rng"

section \<open>The integrator\<close>

text \<open>
  A \<^verbatim>\<open>datetime\<close> is a number of microseconds.  The keyword arguments of a call
  \<^verbatim>\<open>BasalReservoirConfig(...)\<close> are the values given for the fields of the dataclass
  (\<open>None\<close> for a field the call leaves out) and, in \<open>kw_other\<close>, the keywords that
  name no field; the generated \<^verbatim>\<open>__init__\<close> raises \<^verbatim>\<open>TypeError\<close> on those.
\<close>

type_synonym datetime = int

record config_kwargs =
  kw_num_nodes :: "int option"
  kw_spatial_dimension :: "int option"
  kw_learning_rate :: "real option"
  kw_energy_decay :: "real option"
  kw_connection_radius :: "real option"
  kw_homeodynamic_strength :: "real option"
  kw_coherence_coupling :: "real option"
  kw_adaptation_rate :: "real option"
  kw_prediction_horizon :: "int option"
  kw_other :: "(string \<times> real) list"

text \<open>The value of a keyword argument, or the default of the field.\<close>

definition or_default :: "'a option \<Rightarrow> 'a \<Rightarrow> 'a" where
  "or_default v d = (case v of None \<Rightarrow> d | Some x \<Rightarrow> x)"

definition BasalReservoirConfig_init :: "config_kwargs \<Rightarrow> py_error + BasalReservoirConfig" where
  "BasalReservoirConfig_init kw =
     (if kw_other kw \<noteq> [] then Inl TypeError
      else Inr \<lparr>num_nodes = or_default (kw_num_nodes kw) 100,
                spatial_dimension = or_default (kw_spatial_dimension kw) 2,
                learning_rate = or_default (kw_learning_rate kw) 0.01,
                energy_decay = or_default (kw_energy_decay kw) 0.95,
                connection_radius = or_default (kw_connection_radius kw) 0.3,
                homeodynamic_strength = or_default (kw_homeodynamic_strength kw) 0.1,
                coherence_coupling = or_default (kw_coherence_coupling kw) 0.05,
                adaptation_rate = or_default (kw_adaptation_rate kw) 0.001,
                prediction_horizon = or_default (kw_prediction_horizon kw) 10\<rparr>)"

definition no_kwargs :: config_kwargs where
  "no_kwargs =
     \<lparr>kw_num_nodes = None, kw_spatial_dimension = None, kw_learning_rate = None,
      kw_energy_decay = None, kw_connection_radius = None, kw_homeodynamic_strength = None,
      kw_coherence_coupling = None, kw_adaptation_rate = None, kw_prediction_horizon = None,
      kw_other = []\<rparr>"

record MarketDataPoint =
  md_timestamp :: datetime
  symbol :: string
  price :: real
  volume :: int
  sentiment :: "real option"
  coherence_scores :: "(string \<times> real) list option"

record EnhancedCoherenceResult =
  traditional_gct :: GCTDimensions
  basal_enhanced_gct :: GCTDimensions
  anticipation_capacity :: real
  prediction_confidence :: real
  symbolic_resonance :: real
  adaptation_efficiency :: real
  reservoir_state :: "(string \<times> real) list"
  timestamp :: datetime

record GCTBasalIntegrator =
  basal_engine :: BasalReservoirEngine
  integration_strength :: real
  gct_params :: "(string \<times> real) list"
  market_history :: "MarketDataPoint list"
  coherence_results :: "EnhancedCoherenceResult list"
  prediction_cache :: "(string \<times> real list) list"
  adaptation_metrics :: "(string \<times> real) list"
  prediction_accuracy_tracker :: "real list"
  coherence_stability_tracker :: "real list"
  is_running :: bool

text \<open>
  \<^verbatim>\<open>GCTBasalIntegrator.__init__\<close>.  Both parameters have defaults: \<open>None\<close> stands
  for an argument the caller leaves out.
\<close>

definition integrator_default_kwargs :: config_kwargs where
  "integrator_default_kwargs =
     no_kwargs\<lparr>kw_num_nodes := Some 80, kw_learning_rate := Some 0.02,
               kw_other := [(''soulmath_coupling'', 0.08)],
               kw_adaptation_rate := Some 0.002\<rparr>"

definition GCTBasalIntegrator_init :: "BasalReservoirConfig option \<Rightarrow> real option \<Rightarrow> rng_draws
                                         \<Rightarrow> py_error + GCTBasalIntegrator" where
  "GCTBasalIntegrator_init reservoir_config integration_strength_arg rng =
     (case (case reservoir_config of
              None \<Rightarrow> BasalReservoirConfig_init integrator_default_kwargs
            | Some c \<Rightarrow> Inr c) of
        Inl err \<Rightarrow> Inl err
      | Inr cfg \<Rightarrow>
          (case BasalReservoirEngine_init cfg rng of
             Inl err \<Rightarrow> Inl err
           | Inr eng \<Rightarrow>
               Inr \<lparr>basal_engine = eng,
                    integration_strength = or_default integration_strength_arg 0.3,
                    gct_params = [(''ki'', 0.5), (''km'', 0.3), (''temporal_decay'', 0.95),
                                  (''coherence_threshold'', 0.7)],
                    market_history = [], coherence_results = [],
                    prediction_cache = [], adaptation_metrics = [],
                    prediction_accuracy_tracker = [], coherence_stability_tracker = [],
                    is_running = False\<rparr>))"

text \<open>
  \<^verbatim>\<open>np.polyfit(range(len(ys)), ys, 1)[0]\<close>: the slope of the least-squares line
  through the points \<open>(0, ys[0]), (1, ys[1]), \<dots>\<close>.
\<close>

definition polyfit_slope :: "real list \<Rightarrow> real" where
  "polyfit_slope ys =
     (let xs = map real [0..<length ys];
          xm = np_mean xs;
          ym = np_mean ys
      in sum_list (map (\<lambda>(x, y). (x - xm) * (y - ym)) (zip xs ys))
           / sum_list (map (\<lambda>x. (x - xm)\<^sup>2) xs))"

text \<open>
  A division of two Python floats raises \<^verbatim>\<open>ZeroDivisionError\<close> on a zero divisor;
  a division by a NumPy float does not raise.
\<close>

definition py_div :: "real \<Rightarrow> real \<Rightarrow> py_error + real" where
  "py_div a b = (if b = 0 then Inl ZeroDivisionError else Inr (a / b))"

text \<open>
  The component \<^verbatim>\<open>f\<close> of \<^verbatim>\<open>_compute_traditional_gct\<close>, the only statement of
  that function that can raise.
\<close>

definition social_frequency :: "MarketDataPoint \<Rightarrow> real list \<Rightarrow> py_error + real" where
  "social_frequency market_data recent_prices =
     (case sentiment market_data of
        Some sv \<Rightarrow> Inr ((sv + 1) / 2)
      | None \<Rightarrow>
          if length recent_prices \<ge> 3 then
            (case py_div (recent_prices ! (length recent_prices - 1)
                            - recent_prices ! (length recent_prices - 3))
                         (recent_prices ! (length recent_prices - 3)) of
               Inl err \<Rightarrow> Inl err
             | Inr momentum \<Rightarrow> Inr ((tanh (momentum * 10) + 1) / 2))
          else Inr 0.5)"

definition compute_traditional_gct :: "GCTBasalIntegrator \<Rightarrow> MarketDataPoint \<Rightarrow> py_error + GCTDimensions" where
  "compute_traditional_gct s market_data =
     (let recent_prices = map price (last_n 20 (market_history s));
          recent_volumes = map (\<lambda>dp. real_of_int (volume dp)) (last_n 20 (market_history s))
      in if length recent_prices < 5
         then Inr \<lparr>gct_psi = 0.5, gct_rho = 0.5, gct_q = 0.5, gct_f = 0.5\<rparr>
         else
           let window = last_n 10 recent_prices;
               price_volatility = np_std window / (np_mean window + 1 / 100000000);
               psi = exp (- 2 * price_volatility);
               rho = (if length recent_prices \<ge> 10 then
                        (let price_trend = polyfit_slope window;
                             trend_strength = \<bar>price_trend\<bar> / (np_mean window + 1 / 100000000)
                         in min 1 (trend_strength * 10))
                      else 0.5);
               q = (if length recent_volumes \<ge> 5 then
                      (let volume_ratio = recent_volumes ! (length recent_volumes - 1)
                                            / (np_mean (last_n 5 recent_volumes) + 1 / 100000000)
                       in min 1 (max 0 ((volume_ratio - 0.5) * 2)))
                    else 0.5)
           in case social_frequency market_data recent_prices of
                Inl err \<Rightarrow> Inl err
              | Inr f \<Rightarrow>
                  Inr \<lparr>gct_psi = np_clip psi 0 1, gct_rho = np_clip rho 0 1,
                       gct_q = np_clip q 0 1, gct_f = np_clip f 0 1\<rparr>)"

definition prepare_market_data_for_reservoir :: "GCTBasalIntegrator \<Rightarrow> real list" where
  "prepare_market_data_for_reservoir s =
     (if length (market_history s) < 5 then replicate 10 0
      else
        let recent_data = last_n 20 (market_history s);
            prices = map price recent_data;
            volumes = map (\<lambda>dp. real_of_int (volume dp)) recent_data;
            prices_norm = map (\<lambda>x. (x - np_mean prices) / (np_std prices + 1 / 100000000)) prices;
            volumes_norm = map (\<lambda>x. (x - np_mean volumes) / (np_std volumes + 1 / 100000000)) volumes;
            combined = last_n 10 prices_norm @ last_n 10 volumes_norm;
            padded = (if length combined < 20
                      then combined @ replicate (20 - length combined) 0 else combined)
        in take 20 padded)"

definition encode_market_signals :: "GCTBasalIntegrator \<Rightarrow> MarketDataPoint \<Rightarrow> py_error + pydict" where
  "encode_market_signals s market_data =
     (let hist = market_history s;
          n = length (nodes (basal_engine s))
      in case (if length hist \<ge> 2 then
                 (case py_div (price market_data - price (hist ! (length hist - 2)))
                              (price (hist ! (length hist - 2))) of
                    Inl err \<Rightarrow> Inl err
                  | Inr price_change \<Rightarrow> Inr (dict_set [] 0 (tanh (price_change * 100))))
               else Inr []) of
           Inl err \<Rightarrow> Inl err
         | Inr signals1 \<Rightarrow>
             let signals2 =
                   (if length hist \<ge> 5 then
                      (let recent_volumes = map (\<lambda>dp. real_of_int (volume dp)) (last_n 5 hist);
                           volume_ratio = real_of_int (volume market_data)
                                            / (np_mean recent_volumes + 1 / 100000000)
                       in dict_set signals1 (n div 4) (tanh (volume_ratio - 1)))
                    else signals1);
                 signals3 =
                   (case sentiment market_data of
                      Some sv \<Rightarrow> dict_set signals2 (n div 2) sv
                    | None \<Rightarrow> signals2)
             in Inr signals3)"

definition integrate_coherence_approaches :: "GCTBasalIntegrator \<Rightarrow> GCTDimensions \<Rightarrow> real \<Rightarrow> real \<Rightarrow> GCTDimensions" where
  "integrate_coherence_approaches s traditional basal_coherence anticipation =
     (let alpha = integration_strength s;
          enhanced_psi = (1 - alpha) * gct_psi traditional + alpha * basal_coherence;
          anticipation_boost = np_clip anticipation (- 0.5) 0.5;
          enhanced_rho = gct_rho traditional + alpha * anticipation_boost;
          reservoir_energy =
            state_get (get_reservoir_state (basal_engine s)) ''average_energy'' 0.5;
          enhanced_q = (1 - alpha) * gct_q traditional + alpha * reservoir_energy;
          reservoir_activation =
            state_get (get_reservoir_state (basal_engine s)) ''average_activation'' 0;
          activation_normalized = (tanh reservoir_activation + 1) / 2;
          enhanced_f = (1 - alpha) * gct_f traditional + alpha * activation_normalized
      in \<lparr>gct_psi = np_clip enhanced_psi 0 1, gct_rho = np_clip enhanced_rho 0 1,
          gct_q = np_clip enhanced_q 0 1, gct_f = np_clip enhanced_f 0 1\<rparr>)"

definition compute_symbolic_resonance :: "GCTBasalIntegrator \<Rightarrow> MarketDataPoint \<Rightarrow> real list \<Rightarrow> py_error + real" where
  "compute_symbolic_resonance s market_data activations =
     (let hist = market_history s;
          ns = nodes (basal_engine s)
      in case (if length hist \<ge> 3 then
                 py_div (price market_data - price (hist ! (length hist - 3)))
                        (price (hist ! (length hist - 3)))
               else Inr 0) of
           Inl err \<Rightarrow> Inl err
         | Inr price_momentum \<Rightarrow>
             let reservoir_momentum =
                   (if length ns > 0 \<and> length (activation_history (ns ! 0)) \<ge> 2 then
                      np_mean (map (\<lambda>n. activation_history n ! (length (activation_history n) - 1)
                                         - activation_history n ! (length (activation_history n) - 2))
                                   (filter (\<lambda>n. length (activation_history n) \<ge> 2) ns))
                    else 0);
                 resonance =
                   (if \<bar>price_momentum\<bar> > 1 / 1000000 \<and> \<bar>reservoir_momentum\<bar> > 1 / 1000000
                    then tanh (price_momentum * reservoir_momentum * 1000) else 0)
             in Inr ((resonance + 1) / 2))"

text \<open>
  \<^verbatim>\<open>_compute_prediction_confidence\<close> catches every exception of the prediction and
  returns 0.5; the engine keeps what the prediction has done to it before.
\<close>

definition compute_prediction_confidence :: "GCTBasalIntegrator \<Rightarrow> real list \<Rightarrow> GCTBasalIntegrator \<times> real" where
  "compute_prediction_confidence s market_data =
     (case predict_market_pattern (basal_engine s) market_data 3 of
        (e', Inl err) \<Rightarrow> (s\<lparr>basal_engine := e'\<rparr>, 0.5)
      | (e', Inr predictions) \<Rightarrow>
          let confidence = (if length predictions \<ge> 2
                            then exp (- np_var predictions * 10) else 0.5);
              energy_variance = state_get (get_reservoir_state e') ''energy_variance'' 0.5;
              stability_factor = exp (- energy_variance * 5);
              final_confidence = confidence * stability_factor
          in (s\<lparr>basal_engine := e'\<rparr>, np_clip final_confidence 0 1))"

definition compute_adaptation_efficiency :: "GCTBasalIntegrator \<Rightarrow> real" where
  "compute_adaptation_efficiency s =
     (if length (coherence_results s) < 10 then 0.5
      else
        let recent_coherence =
              map (\<lambda>r. gct_psi (basal_enhanced_gct r)) (last_n 10 (coherence_results s));
            earlier_coherence =
              (if length (coherence_results s) \<ge> 20
               then map (\<lambda>r. gct_psi (basal_enhanced_gct r))
                        (take 10 (last_n 20 (coherence_results s)))
               else recent_coherence)
        in if length earlier_coherence > 0 then
             (let improvement = np_mean recent_coherence - np_mean earlier_coherence
              in (tanh (improvement * 5) + 1) / 2)
           else 0.5)"

definition update_performance_metrics :: "GCTBasalIntegrator \<Rightarrow> EnhancedCoherenceResult \<Rightarrow> py_error + GCTBasalIntegrator" where
  "update_performance_metrics s result =
     (let hist = market_history s
      in case (if length hist \<ge> 2 then
                 (case py_div (price (hist ! (length hist - 1)) - price (hist ! (length hist - 2)))
                              (price (hist ! (length hist - 2))) of
                    Inl err \<Rightarrow> Inl err
                  | Inr price_change \<Rightarrow>
                      let anticipation = anticipation_capacity result;
                          accuracy = (if (price_change > 0 \<and> anticipation > 0)
                                         \<or> (price_change < 0 \<and> anticipation < 0)
                                      then 1 else 0);
                          tracker = prediction_accuracy_tracker s @ [accuracy]
                      in Inr (s\<lparr>prediction_accuracy_tracker :=
                                  (if length tracker > 100 then tl tracker else tracker)\<rparr>))
               else Inr s) of
           Inl err \<Rightarrow> Inl err
         | Inr s1 \<Rightarrow>
             let tracker = coherence_stability_tracker s1 @ [gct_psi (basal_enhanced_gct result)]
             in Inr (s1\<lparr>coherence_stability_tracker :=
                          (if length tracker > 50 then tl tracker else tracker)\<rparr>))"

definition create_fallback_result :: "MarketDataPoint \<Rightarrow> datetime \<Rightarrow> EnhancedCoherenceResult" where
  "create_fallback_result market_data now =
     (let fallback_gct = \<lparr>gct_psi = 0.5, gct_rho = 0.5, gct_q = 0.5, gct_f = 0.5\<rparr>
      in \<lparr>traditional_gct = fallback_gct, basal_enhanced_gct = fallback_gct,
          anticipation_capacity = 0, prediction_confidence = 0, symbolic_resonance = 0,
          adaptation_efficiency = 0, reservoir_state = [], timestamp = now\<rparr>)"

text \<open>
  The body of the \<^verbatim>\<open>try\<close> block of \<^verbatim>\<open>process_market_data_stream\<close>.  Every
  statement that can raise is a \<open>case\<close>; the integrator returned beside an error is the
  one the statements before the raise have left.  \<open>now\<close> is what \<^verbatim>\<open>datetime.now\<close>
  returns when the result is built.
\<close>

definition process_body :: "GCTBasalIntegrator \<Rightarrow> datetime \<Rightarrow> MarketDataPoint \<Rightarrow> bool
                              \<Rightarrow> GCTBasalIntegrator \<times> (py_error + EnhancedCoherenceResult)" where
  "process_body s now market_data enable_prediction =
     (let hist = market_history s @ [market_data];
          s1 = s\<lparr>market_history := (if length hist > 1000 then tl hist else hist)\<rparr>
      in case compute_traditional_gct s1 market_data of
           Inl err \<Rightarrow> (s1, Inl err)
         | Inr traditional \<Rightarrow>
      let market_array = prepare_market_data_for_reservoir s1
      in case encode_market_signals s1 market_data of
           Inl err \<Rightarrow> (s1, Inl err)
         | Inr reservoir_inputs \<Rightarrow>
      (case update_reservoir_state (basal_engine s1) (Some reservoir_inputs) of
         (e1, activations) \<Rightarrow>
      (case compute_enhanced_coherence e1 of
         Inl err \<Rightarrow> (s1\<lparr>basal_engine := e1\<rparr>, Inl err)
       | Inr (e2, basal_coherence) \<Rightarrow>
      (case compute_anticipation_capacity e2 of
         (e3, anticipation) \<Rightarrow>
      let s2 = s1\<lparr>basal_engine := e3\<rparr>;
          enhanced = integrate_coherence_approaches s2 traditional basal_coherence anticipation
      in case compute_symbolic_resonance s2 market_data activations of
           Inl err \<Rightarrow> (s2, Inl err)
         | Inr resonance \<Rightarrow>
      (case (if enable_prediction then compute_prediction_confidence s2 market_array
             else (s2, 0)) of
         (s3, confidence) \<Rightarrow>
      let result = \<lparr>traditional_gct = traditional, basal_enhanced_gct = enhanced,
                    anticipation_capacity = anticipation,
                    prediction_confidence = confidence,
                    symbolic_resonance = resonance,
                    adaptation_efficiency = compute_adaptation_efficiency s3,
                    reservoir_state = get_reservoir_state (basal_engine s3),
                    timestamp = now\<rparr>;
          results = coherence_results s3 @ [result];
          s4 = s3\<lparr>coherence_results := (if length results > 500 then tl results else results)\<rparr>
      in case update_performance_metrics s4 result of
           Inl err \<Rightarrow> (s4, Inl err)
         | Inr s5 \<Rightarrow> (s5, Inr result))))))"

text \<open>
  \<^verbatim>\<open>process_market_data_stream\<close>: \<^verbatim>\<open>except Exception\<close> turns every error of
  the body into the fallback result.
\<close>

definition process_market_data_stream :: "GCTBasalIntegrator \<Rightarrow> datetime \<Rightarrow> MarketDataPoint \<Rightarrow> bool
                                            \<Rightarrow> GCTBasalIntegrator \<times> EnhancedCoherenceResult" where
  "process_market_data_stream s now market_data enable_prediction =
     (case process_body s now market_data enable_prediction of
        (s', Inr result) \<Rightarrow> (s', result)
      | (s', Inl err) \<Rightarrow> (s', create_fallback_result market_data now))"

text \<open>
  A stream of data points through one integrator: the \<open>k\<close>-th call reads the clock
  value \<open>clock ! k\<close>.
\<close>

fun process_stream :: "GCTBasalIntegrator \<Rightarrow> (datetime \<times> MarketDataPoint) list
                         \<Rightarrow> EnhancedCoherenceResult list" where
  "process_stream s [] = []"
| "process_stream s ((now, d) # rest) =
     (case process_market_data_stream s now d True of
        (s', r) \<Rightarrow> r # process_stream s' rest)"

section \<open>Concrete inputs\<close>

text \<open>
  Draws that \<^verbatim>\<open>np.random\<close> can return: every node at the origin, every energy and
  target in the middle of its interval, every weight factor 0.1.
\<close>

definition example_rng :: rng_draws where
  "example_rng =
     \<lparr>position_draw = (\<lambda>i k. 0), energy_draw = (\<lambda>i. 0.5), target_draw = (\<lambda>i. 0.5),
      incoming_normal = (\<lambda>i j. 0.1), outgoing_normal = (\<lambda>i j. 0.1)\<rparr>"

definition example_engine :: BasalReservoirEngine where
  "example_engine = build_engine BasalReservoirConfig_default example_rng"

text \<open>What the target adaptation preserves at one node.\<close>

definition target_inv :: "BasalReservoirNode \<Rightarrow> bool" where
  "target_inv n \<longleftrightarrow>
     0 \<le> adaptation_rate (config n) \<and> 0.2 \<le> target_energy n \<and> target_energy n \<le> 0.8"

text \<open>
  A configuration with two nodes, and draws in which \<^verbatim>\<open>np.random.normal(0, 0.2)\<close>
  returns 3 for every incoming weight: the normal distribution has no bound.
\<close>

definition two_node_config :: BasalReservoirConfig where
  "two_node_config = BasalReservoirConfig_default\<lparr>num_nodes := 2\<rparr>"

definition heavy_rng :: rng_draws where
  "heavy_rng = example_rng\<lparr>incoming_normal := (\<lambda>i j. 3)\<rparr>"

text \<open>What one engine step preserves at one node; a dictionary whose values are all 0.\<close>

definition weight_inv :: "pydict \<Rightarrow> bool" where
  "weight_inv w = list_all (\<lambda>(k, v). \<bar>v\<bar> \<le> 2) w"

definition node_inv :: "BasalReservoirNode \<Rightarrow> bool" where
  "node_inv n \<longleftrightarrow> 0 \<le> energy n \<and> energy n \<le> 1 \<and> weight_inv (incoming_weights n)"

definition all_zero :: "pydict \<Rightarrow> bool" where
  "all_zero d = list_all (\<lambda>(k, v). v = 0) d"

text \<open>
  The dominant frequency as the specification has it: the index \<open>k\<close>, among the positive
  frequencies below half the length, at which the magnitude of the Fourier transform is
  largest, the first such index when several are.
\<close>

definition is_dominant_frequency :: "real list \<Rightarrow> nat \<Rightarrow> bool" where
  "is_dominant_frequency xs k \<longleftrightarrow>
     1 \<le> k \<and> k < length xs div 2
     \<and> (\<forall>j \<in> {1..<length xs div 2}. cmod (np_fft xs ! j) \<le> cmod (np_fft xs ! k))
     \<and> (\<forall>j \<in> {1..<k}. cmod (np_fft xs ! j) < cmod (np_fft xs ! k))"

text \<open>
  The engines the code can hold: the one the constructor returns, and what a step, a
  computation of the coherence or a computation of the anticipation leaves.
\<close>

inductive engine_reachable :: "BasalReservoirEngine \<Rightarrow> bool" where
  constructed: "BasalReservoirEngine_init cfg rng = Inr e \<Longrightarrow> engine_reachable e"
| stepped: "engine_reachable e \<Longrightarrow> engine_reachable (fst (update_reservoir_state e x))"
| coherence: "engine_reachable e \<Longrightarrow> compute_enhanced_coherence e = Inr (e', c) \<Longrightarrow> engine_reachable e'"
| anticipation: "engine_reachable e \<Longrightarrow> engine_reachable (fst (compute_anticipation_capacity e))"

text \<open>The interval [0, 1], for one number, for a coherence vector and for a result.\<close>

definition in_unit :: "real \<Rightarrow> bool" where
  "in_unit x \<longleftrightarrow> 0 \<le> x \<and> x \<le> 1"

definition unit_gct :: "GCTDimensions \<Rightarrow> bool" where
  "unit_gct g \<longleftrightarrow> in_unit (gct_psi g) \<and> in_unit (gct_rho g) \<and> in_unit (gct_q g) \<and> in_unit (gct_f g)"

definition unit_result :: "EnhancedCoherenceResult \<Rightarrow> bool" where
  "unit_result r \<longleftrightarrow>
     unit_gct (traditional_gct r) \<and> unit_gct (basal_enhanced_gct r)
     \<and> in_unit (prediction_confidence r) \<and> in_unit (symbolic_resonance r)
     \<and> in_unit (adaptation_efficiency r)"

text \<open>
  Names for the parts of \<open>process_body\<close>: the append to the bounded market history, the
  three engine calls, the construction of the result, the append to the bounded result
  log, and the statements after the engine calls.
\<close>

definition history_step :: "GCTBasalIntegrator \<Rightarrow> MarketDataPoint \<Rightarrow> GCTBasalIntegrator" where
  "history_step s d =
     s\<lparr>market_history := (if length (market_history s @ [d]) > 1000
                            then tl (market_history s @ [d]) else market_history s @ [d])\<rparr>"

definition engine_stage :: "BasalReservoirEngine \<Rightarrow> pydict
     \<Rightarrow> BasalReservoirEngine \<times> (py_error + real list \<times> real \<times> real)" where
  "engine_stage e inputs =
     (case update_reservoir_state e (Some inputs) of
        (e1, activations) \<Rightarrow>
          (case compute_enhanced_coherence e1 of
             Inl err \<Rightarrow> (e1, Inl err)
           | Inr (e2, basal_coherence) \<Rightarrow>
               (case compute_anticipation_capacity e2 of
                  (e3, anticipation) \<Rightarrow> (e3, Inr (activations, basal_coherence, anticipation)))))"

definition build_result :: "GCTBasalIntegrator \<Rightarrow> datetime \<Rightarrow> GCTDimensions \<Rightarrow> GCTDimensions
     \<Rightarrow> real \<Rightarrow> real \<Rightarrow> real \<Rightarrow> EnhancedCoherenceResult" where
  "build_result s3 now traditional enhanced anticipation confidence resonance =
     \<lparr>traditional_gct = traditional, basal_enhanced_gct = enhanced,
      anticipation_capacity = anticipation, prediction_confidence = confidence,
      symbolic_resonance = resonance,
      adaptation_efficiency = compute_adaptation_efficiency s3,
      reservoir_state = get_reservoir_state (basal_engine s3), timestamp = now\<rparr>"

definition log_result :: "GCTBasalIntegrator \<Rightarrow> EnhancedCoherenceResult \<Rightarrow> GCTBasalIntegrator" where
  "log_result s3 result =
     s3\<lparr>coherence_results := (if length (coherence_results s3 @ [result]) > 500
                               then tl (coherence_results s3 @ [result])
                               else coherence_results s3 @ [result])\<rparr>"

definition finish_stage :: "GCTBasalIntegrator \<Rightarrow> datetime \<Rightarrow> MarketDataPoint \<Rightarrow> bool
     \<Rightarrow> GCTDimensions \<Rightarrow> real list \<Rightarrow> real list \<Rightarrow> real \<Rightarrow> real
     \<Rightarrow> GCTBasalIntegrator \<times> (py_error + EnhancedCoherenceResult)" where
  "finish_stage s2 now d en traditional market_array activations basal_coherence anticipation =
     (case compute_symbolic_resonance s2 d activations of
        Inl err \<Rightarrow> (s2, Inl err)
      | Inr resonance \<Rightarrow>
          (case (if en then compute_prediction_confidence s2 market_array else (s2, 0)) of
             (s3, confidence) \<Rightarrow>
               (case update_performance_metrics
                       (log_result s3 (build_result s3 now traditional
                          (integrate_coherence_approaches s2 traditional basal_coherence anticipation)
                          anticipation confidence resonance))
                       (build_result s3 now traditional
                          (integrate_coherence_approaches s2 traditional basal_coherence anticipation)
                          anticipation confidence resonance) of
                  Inl err \<Rightarrow>
                    (log_result s3 (build_result s3 now traditional
                          (integrate_coherence_approaches s2 traditional basal_coherence anticipation)
                          anticipation confidence resonance), Inl err)
                | Inr s5 \<Rightarrow>
                    (s5, Inr (build_result s3 now traditional
                          (integrate_coherence_approaches s2 traditional basal_coherence anticipation)
                          anticipation confidence resonance)))))"

text \<open>
  An integrator as the constructor returns it for the default configuration, the data
  point of the repository's tests, and a data point with price 0.
\<close>

definition example_integrator :: GCTBasalIntegrator where
  "example_integrator =
     \<lparr>basal_engine = example_engine, integration_strength = 0.3,
      gct_params = [(''ki'', 0.5), (''km'', 0.3), (''temporal_decay'', 0.95),
                    (''coherence_threshold'', 0.7)],
      market_history = [], coherence_results = [],
      prediction_cache = [], adaptation_metrics = [],
      prediction_accuracy_tracker = [], coherence_stability_tracker = [],
      is_running = False\<rparr>"

definition zero_price_point :: MarketDataPoint where
  "zero_price_point =
     \<lparr>md_timestamp = 0, symbol = ''TEST'', price = 0, volume = 10000,
      sentiment = Some 0.2, coherence_scores = None\<rparr>"

definition example_point :: MarketDataPoint where
  "example_point =
     \<lparr>md_timestamp = 1, symbol = ''TEST'', price = 100, volume = 10000,
      sentiment = Some 0.2, coherence_scores = None\<rparr>"

definition quiet_point :: MarketDataPoint where
  "quiet_point =
     \<lparr>md_timestamp = 0, symbol = ''TEST'', price = 100, volume = 10000,
      sentiment = None, coherence_scores = None\<rparr>"

definition neutral_gct :: GCTDimensions where
  "neutral_gct = \<lparr>gct_psi = 0.5, gct_rho = 0.5, gct_q = 0.5, gct_f = 0.5\<rparr>"

text \<open>
  A result and an integrator with the time stamps of the results set to 0, and a stream in
  which every call reads the clock value 0.
\<close>

definition without_timestamp :: "EnhancedCoherenceResult \<Rightarrow> EnhancedCoherenceResult" where
  "without_timestamp r = r\<lparr>timestamp := 0\<rparr>"

definition without_timestamps :: "GCTBasalIntegrator \<Rightarrow> GCTBasalIntegrator" where
  "without_timestamps s = s\<lparr>coherence_results := map without_timestamp (coherence_results s)\<rparr>"

fun zero_clock :: "(datetime \<times> MarketDataPoint) list \<Rightarrow> (datetime \<times> MarketDataPoint) list" where
  "zero_clock [] = []"
| "zero_clock ((now, d) # rest) = (0, d) # zero_clock rest"

text \<open>
  A configuration that differs from the default in a negative adaptation rate.  One pass of
  the loop of \<^verbatim>\<open>update_reservoir_state\<close> at a node that receives no external input and
  whose neighbours are all at activation 0, and the energy of such a node after \<open>k\<close>
  passes.
\<close>

definition negative_rate_config :: BasalReservoirConfig where
  "negative_rate_config = BasalReservoirConfig_default\<lparr>adaptation_rate := - 1\<rparr>"

definition quiet_pass :: "BasalReservoirNode \<Rightarrow> BasalReservoirNode" where
  "quiet_pass n = adapt_target_energy (update_energy n [] [])"

primrec quiet_energy :: "real \<Rightarrow> real \<Rightarrow> real \<Rightarrow> nat \<Rightarrow> real" where
  "quiet_energy e0 t d 0 = e0"
| "quiet_energy e0 t d (Suc k) =
     np_clip (quiet_energy e0 t d k * d - 0.05 * (quiet_energy e0 t d k - t)) 0 1"

subsection \<open>Floating-point overflow in the traditional psi\<close>

text \<open>
  IEEE doubles with rounding left out: an operation on finite values returns the exact real
  result unless its magnitude exceeds the largest double, and then the infinity of its
  sign; infinities and NaN combine as IEEE 754 and NumPy have it (a division by a NumPy
  float does not raise; zero is taken as positive).  \<open>np_mean_fl\<close>, \<open>np_std_fl\<close> and
  \<open>fl_clip\<close> are \<^verbatim>\<open>np.mean\<close>, \<^verbatim>\<open>np.std\<close> and \<^verbatim>\<open>np.clip\<close> on such
  values, and \<open>traditional_psi_fl\<close> is the component \<^verbatim>\<open>psi\<close> that
  \<^verbatim>\<open>_compute_traditional_gct\<close> returns for a history of these prices.
\<close>

datatype fl = Fin real | PInf | NInf | NaN

definition max_float :: real where
  "max_float = (2 - 1 / 2 ^ 52) * 2 ^ 1023"

definition fl_of_real :: "real \<Rightarrow> fl" where
  "fl_of_real x = (if x > max_float then PInf else if x < - max_float then NInf else Fin x)"

definition fl_inf_of_sign :: "real \<Rightarrow> fl" where
  "fl_inf_of_sign s = (if s > 0 then PInf else if s < 0 then NInf else NaN)"

fun fl_sgn :: "fl \<Rightarrow> real" where
  "fl_sgn (Fin a) = sgn a"
| "fl_sgn PInf = 1"
| "fl_sgn NInf = - 1"
| "fl_sgn NaN = 0"

fun fl_neg :: "fl \<Rightarrow> fl" where
  "fl_neg (Fin a) = Fin (- a)"
| "fl_neg PInf = NInf"
| "fl_neg NInf = PInf"
| "fl_neg NaN = NaN"

fun fl_add :: "fl \<Rightarrow> fl \<Rightarrow> fl" where
  "fl_add NaN y = NaN"
| "fl_add x NaN = NaN"
| "fl_add (Fin a) (Fin b) = fl_of_real (a + b)"
| "fl_add PInf NInf = NaN"
| "fl_add NInf PInf = NaN"
| "fl_add PInf y = PInf"
| "fl_add x PInf = PInf"
| "fl_add NInf y = NInf"
| "fl_add x NInf = NInf"

definition fl_sub :: "fl \<Rightarrow> fl \<Rightarrow> fl" where
  "fl_sub x y = fl_add x (fl_neg y)"

fun fl_mul :: "fl \<Rightarrow> fl \<Rightarrow> fl" where
  "fl_mul NaN y = NaN"
| "fl_mul x NaN = NaN"
| "fl_mul (Fin a) (Fin b) = fl_of_real (a * b)"
| "fl_mul x y = fl_inf_of_sign (fl_sgn x * fl_sgn y)"

fun fl_div :: "fl \<Rightarrow> fl \<Rightarrow> fl" where
  "fl_div NaN y = NaN"
| "fl_div x NaN = NaN"
| "fl_div (Fin a) (Fin b) = (if b = 0 then fl_inf_of_sign (sgn a) else fl_of_real (a / b))"
| "fl_div (Fin a) y = Fin 0"
| "fl_div x (Fin b) = fl_inf_of_sign (fl_sgn x * (if b < 0 then - 1 else 1))"
| "fl_div x y = NaN"

fun fl_sqrt :: "fl \<Rightarrow> fl" where
  "fl_sqrt (Fin a) = (if a < 0 then NaN else Fin (sqrt a))"
| "fl_sqrt PInf = PInf"
| "fl_sqrt NInf = NaN"
| "fl_sqrt NaN = NaN"

fun fl_exp :: "fl \<Rightarrow> fl" where
  "fl_exp (Fin a) = fl_of_real (exp a)"
| "fl_exp PInf = PInf"
| "fl_exp NInf = Fin 0"
| "fl_exp NaN = NaN"

fun fl_clip :: "fl \<Rightarrow> real \<Rightarrow> real \<Rightarrow> fl" where
  "fl_clip (Fin a) lo hi = Fin (np_clip a lo hi)"
| "fl_clip PInf lo hi = Fin hi"
| "fl_clip NInf lo hi = Fin lo"
| "fl_clip NaN lo hi = NaN"

definition np_mean_fl :: "fl list \<Rightarrow> fl" where
  "np_mean_fl xs = fl_div (foldl fl_add (Fin 0) xs) (Fin (real (length xs)))"

definition np_std_fl :: "fl list \<Rightarrow> fl" where
  "np_std_fl xs =
     fl_sqrt (np_mean_fl (map (\<lambda>x. fl_mul (fl_sub x (np_mean_fl xs)) (fl_sub x (np_mean_fl xs))) xs))"

definition traditional_psi_fl :: "fl list \<Rightarrow> fl" where
  "traditional_psi_fl prices =
     (let recent_prices = last_n 20 prices
      in if length recent_prices < 5 then Fin 0.5
         else
           let window = last_n 10 recent_prices;
               price_volatility =
                 fl_div (np_std_fl window) (fl_add (np_mean_fl window) (Fin (1 / 100000000)));
               psi = fl_exp (fl_mul (Fin (- 2)) price_volatility)
           in fl_clip psi 0 1)"

definition huge_price :: real where
  "huge_price = 10 ^ 308"

section \<open>Properties of one engine step\<close>

lemma update_loop_upt:
  "length store = n \<Longrightarrow> k \<le> n \<Longrightarrow>
   update_loop ext snap [k..<n] (store, acts) =
     (take k store @ map (node_pass ext snap) (drop k store),
      acts @ map (\<lambda>nd. activation (node_pass ext snap nd)) (drop k store))"
proof (induction "n - k" arbitrary: k store acts)
  case 0
  then show ?case by simp
next
  case (Suc m)
  then have kn: "k < n" by simp
  have up: "[k..<n] = k # [Suc k..<n]" using kn by (simp add: upt_conv_Cons)
  let ?nd = "node_pass ext snap (store ! k)"
  have len: "length (store[k := ?nd]) = n" using Suc.prems by simp
  have m: "m = n - Suc k" using Suc.hyps by simp
  have dk: "drop k store = store ! k # drop (Suc k) store"
    using kn Suc.prems by (simp add: Cons_nth_drop_Suc)
  have tk: "take (Suc k) (store[k := ?nd]) = take k store @ [?nd]"
    using kn Suc.prems by (simp add: take_Suc_conv_app_nth)
  have dk': "drop (Suc k) (store[k := ?nd]) = drop (Suc k) store" by simp
  show ?case
    using Suc.hyps(1)[OF m len, of "acts @ [activation ?nd]"] kn
    by (simp add: up Let_def tk dk' dk del: upt_Suc)
qed

lemma update_loop_all:
  "update_loop ext snap [0..<length ns] (ns, []) =
     (map (node_pass ext snap) ns, map (\<lambda>nd. activation (node_pass ext snap nd)) ns)"
  using update_loop_upt[of ns "length ns" 0 ext snap "[]"] by simp

lemma update_energy_keeps [simp]:
  "node_id (update_energy n ext nb) = node_id n"
  "incoming_weights (update_energy n ext nb) = incoming_weights n"
  "target_energy (update_energy n ext nb) = target_energy n"
  "config (update_energy n ext nb) = config n"
  by (simp_all add: update_energy_def Let_def)

lemma homeodynamic_learning_keeps [simp]:
  "node_id (homeodynamic_learning n nb) = node_id n"
  "energy (homeodynamic_learning n nb) = energy n"
  "target_energy (homeodynamic_learning n nb) = target_energy n"
  "activation (homeodynamic_learning n nb) = activation n"
  "config (homeodynamic_learning n nb) = config n"
  "energy_history (homeodynamic_learning n nb) = energy_history n"
  "activation_history (homeodynamic_learning n nb) = activation_history n"
  by (simp_all add: homeodynamic_learning_def Let_def)

lemma adapt_target_energy_keeps [simp]:
  "node_id (adapt_target_energy n) = node_id n"
  "energy (adapt_target_energy n) = energy n"
  "activation (adapt_target_energy n) = activation n"
  "incoming_weights (adapt_target_energy n) = incoming_weights n"
  "config (adapt_target_energy n) = config n"
  "energy_history (adapt_target_energy n) = energy_history n"
  "activation_history (adapt_target_energy n) = activation_history n"
  by (simp_all add: adapt_target_energy_def Let_def)

lemma neighbor_states_of_update_energy [simp]:
  "neighbor_states_of snap (update_energy n ext nb) = neighbor_states_of snap n"
  by (simp add: neighbor_states_of_def)

lemma nodes_update_reservoir_state:
  "nodes (fst (update_reservoir_state e x)) =
     map (node_pass (case x of None \<Rightarrow> [] | Some d \<Rightarrow> d) (activation_snapshot (nodes e))) (nodes e)"
  by (simp add: update_reservoir_state_def Let_def update_loop_all)

lemma length_nodes_update_reservoir_state [simp]:
  "length (nodes (fst (update_reservoir_state e x))) = length (nodes e)"
  by (simp add: nodes_update_reservoir_state)

lemma length_nodes_run_steps [simp]:
  "length (nodes (run_steps e xs)) = length (nodes e)"
  by (induction xs arbitrary: e) simp_all

lemma node_pass_config [simp]: "config (node_pass ext snap n) = config n"
  by (simp add: node_pass_def Let_def)

lemma nodes_build_engine:
  "nodes (build_engine cfg rng) =
     map (\<lambda>i. initialize_node_weights rng
                 (build_spatial_connectivity cfg
                    (map (\<lambda>i. node_init rng i (map (position_draw rng i) [0..<nat (spatial_dimension cfg)]) cfg)
                         [0..<nat (num_nodes cfg)])) i
                 (node_init rng i (map (position_draw rng i) [0..<nat (spatial_dimension cfg)]) cfg))
         [0..<nat (num_nodes cfg)]"
  by (simp add: build_engine_def Let_def)

lemma length_nodes_build_engine [simp]:
  "length (nodes (build_engine cfg rng)) = nat (num_nodes cfg)"
  by (simp add: nodes_build_engine)

lemma initialize_node_weights_keeps [simp]:
  "target_energy (initialize_node_weights rng adj i n) = target_energy n"
  "energy (initialize_node_weights rng adj i n) = energy n"
  "config (initialize_node_weights rng adj i n) = config n"
  "node_id (initialize_node_weights rng adj i n) = node_id n"
  "activation (initialize_node_weights rng adj i n) = activation n"
  by (simp_all add: initialize_node_weights_def)

lemma build_engine_node:
  "n \<in> set (nodes (build_engine cfg rng)) \<Longrightarrow>
   \<exists>i < nat (num_nodes cfg). node_id n = i \<and> config n = cfg \<and> energy n = energy_draw rng i \<and>
       target_energy n = target_draw rng i \<and> activation n = 0"
  by (auto simp: nodes_build_engine node_init_def)

lemma BasalReservoirEngine_init_Inr:
  "BasalReservoirEngine_init cfg rng = Inr e \<Longrightarrow> e = build_engine cfg rng"
  by (simp add: BasalReservoirEngine_init_def split: if_splits)

lemma init_default_config:
  "BasalReservoirEngine_init BasalReservoirConfig_default rng =
     Inr (build_engine BasalReservoirConfig_default rng)"
  by (simp add: BasalReservoirEngine_init_def BasalReservoirConfig_default_def)

lemma length_example_engine: "0 < length (nodes example_engine)"
  by (simp add: example_engine_def BasalReservoirConfig_default_def)

text \<open>
  C9.  Within one engine step every node is updated from the activations as they were
  before the step: the loop of \<^verbatim>\<open>update_reservoir_state\<close>, which writes the nodes one
  after the other into the store, returns the same engine and the same activation vector
  as the synchronous reference, in which all nodes are updated from the snapshot, then all
  learn, then all adapt their target.
\<close>

theorem update_reservoir_state_synchronous:
  "update_reservoir_state e external_inputs = sync_reference e external_inputs"
  by (simp add: update_reservoir_state_def sync_reference_def Let_def update_loop_all
        node_pass_def comp_def)

theorem update_reservoir_state_synchronous_witness:
  "update_reservoir_state example_engine (Some [(0, 1)]) = sync_reference example_engine (Some [(0, 1)])"
  by (rule update_reservoir_state_synchronous)

subsection \<open>Target energy\<close>

lemma adapt_target_energy_bounds:
  "0 \<le> adaptation_rate (config n) \<Longrightarrow> 0.2 \<le> target_energy n \<Longrightarrow> target_energy n \<le> 0.8 \<Longrightarrow>
   0.2 \<le> target_energy (adapt_target_energy n) \<and> target_energy (adapt_target_energy n) \<le> 0.8"
  by (auto simp: adapt_target_energy_def Let_def min_def max_def)

lemma node_pass_target_bounds:
  "0 \<le> adaptation_rate (config n) \<Longrightarrow> 0.2 \<le> target_energy n \<Longrightarrow> target_energy n \<le> 0.8 \<Longrightarrow>
   0.2 \<le> target_energy (node_pass ext snap n) \<and> target_energy (node_pass ext snap n) \<le> 0.8"
  unfolding node_pass_def Let_def
  by (rule adapt_target_energy_bounds) simp_all

lemma node_pass_target_inv: "target_inv n \<Longrightarrow> target_inv (node_pass ext snap n)"
  using node_pass_target_bounds [of n ext snap] by (simp add: target_inv_def)

lemma run_steps_target_inv:
  "list_all target_inv (nodes e) \<Longrightarrow> list_all target_inv (nodes (run_steps e xs))"
proof (induction xs arbitrary: e)
  case Nil
  then show ?case by simp
next
  case (Cons x xs)
  have "list_all target_inv (nodes (fst (update_reservoir_state e x)))"
    using Cons.prems
    by (simp add: nodes_update_reservoir_state list_all_iff node_pass_target_inv)
  then show ?case using Cons.IH by simp
qed

text \<open>
  C10, amended.  The engine is constructed from a configuration whose adaptation rate is
  not negative, and \<^verbatim>\<open>np.random.uniform(0.4, 0.6)\<close> returns a value of its interval.
  Then the target energy of every node lies in [0.2, 0.8] after construction and after any
  number of engine steps, whatever the external inputs of the steps are.
\<close>

theorem target_energy_range:
  assumes "BasalReservoirEngine_init cfg rng = Inr e0"
    and "\<forall>i. 0.4 \<le> target_draw rng i \<and> target_draw rng i \<le> 0.6"
    and "0 \<le> adaptation_rate cfg"
    and "n \<in> set (nodes (run_steps e0 inputs))"
  shows "0.2 \<le> target_energy n \<and> target_energy n \<le> 0.8"
proof -
  have e0: "e0 = build_engine cfg rng"
    using assms(1) by (rule BasalReservoirEngine_init_Inr)
  have "list_all target_inv (nodes e0)"
    unfolding list_all_iff
  proof
    fix m assume "m \<in> set (nodes e0)"
    then obtain i where "config m = cfg" "target_energy m = target_draw rng i"
      using build_engine_node e0 by blast
    then show "target_inv m"
      using assms(2)[rule_format, of i] assms(3) by (simp add: target_inv_def)
  qed
  then have "list_all target_inv (nodes (run_steps e0 inputs))"
    by (rule run_steps_target_inv)
  then show ?thesis using assms(4) by (simp add: list_all_iff target_inv_def)
qed

subsection \<open>Energy and weights\<close>

lemma np_clip_bounds: "lo \<le> hi \<Longrightarrow> lo \<le> np_clip x lo hi \<and> np_clip x lo hi \<le> hi"
  by (simp add: np_clip_def)

lemma np_clip_abs2: "\<bar>np_clip x (- 2) 2\<bar> \<le> 2"
  using np_clip_bounds [of "- 2" 2 x] by (simp add: abs_le_iff)

lemma update_energy_energy:
  "0 \<le> energy (update_energy n ext nb) \<and> energy (update_energy n ext nb) \<le> 1"
  using np_clip_bounds [of 0 1] by (simp add: update_energy_def Let_def)

lemma node_pass_energy:
  "0 \<le> energy (node_pass ext snap n) \<and> energy (node_pass ext snap n) \<le> 1"
  by (simp add: node_pass_def Let_def update_energy_energy)

lemma weight_inv_dict_set:
  "weight_inv w \<Longrightarrow> \<bar>v\<bar> \<le> 2 \<Longrightarrow> weight_inv (dict_set w k v)"
  by (induction w) (auto simp: weight_inv_def dict_set_def)

lemma weight_inv_learn_item:
  "weight_inv w \<Longrightarrow> weight_inv (learn_item rate err tw item w)"
  by (cases item) (simp add: learn_item_def Let_def weight_inv_dict_set np_clip_abs2)

lemma weight_inv_fold_learn:
  "weight_inv w \<Longrightarrow> weight_inv (fold (learn_item rate err tw) items w)"
  by (induction items arbitrary: w) (simp_all add: weight_inv_learn_item)

lemma homeodynamic_learning_weight_inv:
  "weight_inv (incoming_weights n) \<Longrightarrow> weight_inv (incoming_weights (homeodynamic_learning n nb))"
  by (simp add: homeodynamic_learning_def Let_def weight_inv_fold_learn)

lemma node_pass_weight_inv:
  "weight_inv (incoming_weights n) \<Longrightarrow> weight_inv (incoming_weights (node_pass ext snap n))"
  by (simp add: node_pass_def Let_def homeodynamic_learning_weight_inv)

lemma node_pass_node_inv: "weight_inv (incoming_weights n) \<Longrightarrow> node_inv (node_pass ext snap n)"
  by (simp add: node_inv_def node_pass_energy node_pass_weight_inv)

lemma run_steps_node_inv:
  "list_all node_inv (nodes e) \<Longrightarrow> list_all node_inv (nodes (run_steps e xs))"
proof (induction xs arbitrary: e)
  case Nil
  then show ?case by simp
next
  case (Cons x xs)
  have "list_all node_inv (nodes (fst (update_reservoir_state e x)))"
    using Cons.prems
    by (auto simp: nodes_update_reservoir_state list_all_iff node_inv_def intro!: node_pass_energy [THEN conjunct1] node_pass_energy [THEN conjunct2] node_pass_weight_inv)
  then show ?case using Cons.IH by simp
qed

lemma norm_diff_nonneg: "0 \<le> norm_diff a b"
  unfolding norm_diff_def
  by (rule real_sqrt_ge_zero, rule sum_list_nonneg) auto

lemma connection_strength_bounds:
  "0 \<le> d \<Longrightarrow> d < r \<Longrightarrow> 0 \<le> exp (- d / (r / 2)) \<and> exp (- d / (r / 2)) \<le> (1::real)"
  by (simp add: divide_nonneg_pos)

lemma adjacency_entry_bounds:
  assumes "i < length ns" "j < length ns"
  shows "0 \<le> build_spatial_connectivity cfg ns ! j ! i \<and> build_spatial_connectivity cfg ns ! j ! i \<le> 1"
  using assms connection_strength_bounds [OF norm_diff_nonneg, of "position (ns ! j)" "position (ns ! i)" "connection_radius cfg"]
  by (simp add: build_spatial_connectivity_def Let_def)

lemma length_build_spatial_connectivity [simp]:
  "length (build_spatial_connectivity cfg ns) = length ns"
  by (simp add: build_spatial_connectivity_def)

lemma scaled_draw_bound: "\<bar>z\<bar> \<le> 2 \<Longrightarrow> 0 \<le> c \<Longrightarrow> c \<le> 1 \<Longrightarrow> \<bar>z * c\<bar> \<le> (2::real)"
proof -
  assume a: "\<bar>z\<bar> \<le> 2" "0 \<le> c" "c \<le> 1"
  have "\<bar>z * c\<bar> = \<bar>z\<bar> * c" using a by (simp add: abs_mult)
  also have "\<dots> \<le> 2 * 1" using a by (intro mult_mono) simp_all
  finally show ?thesis by simp
qed

lemma initialize_node_weights_weight_inv:
  assumes "\<forall>j. \<bar>incoming_normal rng i j\<bar> \<le> 2"
    and "\<forall>j < length adj. 0 \<le> adj ! j ! i \<and> adj ! j ! i \<le> 1"
    and "weight_inv (incoming_weights n)"
  shows "weight_inv (incoming_weights (initialize_node_weights rng adj i n))"
proof -
  have "weight_inv (fold (\<lambda>j w. let connection_strength = adj ! j ! i in
                  if connection_strength > 0
                  then dict_set w j (incoming_normal rng i j * connection_strength) else w)
               [0..<length adj] (incoming_weights n))"
  proof (rule fold_invariant [where Q = "\<lambda>j. j < length adj"])
    show "weight_inv (incoming_weights n)" by (rule assms(3))
  next
    fix j assume "j \<in> set [0..<length adj]"
    then show "j < length adj" by simp
  next
    fix j w assume j: "j < length adj" and w: "weight_inv w"
    show "weight_inv (let connection_strength = adj ! j ! i in
                  if connection_strength > 0
                  then dict_set w j (incoming_normal rng i j * connection_strength) else w)"
      using w assms(1)[rule_format, of j] assms(2)[rule_format, OF j]
      by (simp add: Let_def weight_inv_dict_set scaled_draw_bound)
  qed
  then show ?thesis by (simp add: initialize_node_weights_def)
qed

lemma build_engine_node_inv:
  assumes "\<forall>i. 0.3 \<le> energy_draw rng i \<and> energy_draw rng i \<le> 0.7"
    and "\<forall>i j. \<bar>incoming_normal rng i j\<bar> \<le> 2"
  shows "list_all node_inv (nodes (build_engine cfg rng))"
  unfolding list_all_iff nodes_build_engine
proof
  fix n
  let ?ns0 = "map (\<lambda>i. node_init rng i (map (position_draw rng i) [0..<nat (spatial_dimension cfg)]) cfg)
                         [0..<nat (num_nodes cfg)]"
  assume "n \<in> set (map (\<lambda>i. initialize_node_weights rng (build_spatial_connectivity cfg ?ns0) i
                 (node_init rng i (map (position_draw rng i) [0..<nat (spatial_dimension cfg)]) cfg))
         [0..<nat (num_nodes cfg)])"
  then obtain i where i: "i < nat (num_nodes cfg)"
    and n: "n = initialize_node_weights rng (build_spatial_connectivity cfg ?ns0) i
                 (node_init rng i (map (position_draw rng i) [0..<nat (spatial_dimension cfg)]) cfg)"
    by auto
  have adj: "\<forall>j < length (build_spatial_connectivity cfg ?ns0).
               0 \<le> build_spatial_connectivity cfg ?ns0 ! j ! i \<and> build_spatial_connectivity cfg ?ns0 ! j ! i \<le> 1"
    using i by (auto intro!: adjacency_entry_bounds)
  have w: "weight_inv (incoming_weights n)"
    unfolding n
    by (rule initialize_node_weights_weight_inv [OF _ adj])
       (simp_all add: assms(2) node_init_def weight_inv_def)
  have "energy n = energy_draw rng i" by (simp add: n node_init_def)
  then show "node_inv n"
    using w assms(1)[rule_format, of i] by (simp add: node_inv_def)
qed


lemma all_zero_dict_get: "all_zero d \<Longrightarrow> dict_get d k 0 = 0"
  by (induction d) (auto simp: all_zero_def dict_get_def)

lemma all_zero_dict_set: "all_zero d \<Longrightarrow> all_zero (dict_set d k 0)"
  by (induction d) (auto simp: all_zero_def dict_set_def)

lemma all_zero_snapshot:
  "list_all (\<lambda>n. activation n = 0) ns \<Longrightarrow> all_zero (activation_snapshot ns)"
  unfolding activation_snapshot_def
proof (rule fold_invariant [where Q = "\<lambda>n. activation n = 0"])
  show "all_zero []" by (simp add: all_zero_def)
qed (auto simp: list_all_iff all_zero_dict_set)

lemma all_zero_neighbor_states: "all_zero snap \<Longrightarrow> all_zero (neighbor_states_of snap n)"
  by (simp add: all_zero_def neighbor_states_of_def list_all_iff)

lemma all_zero_weighted_sum:
  "all_zero nb \<Longrightarrow> sum_list (map (\<lambda>(k, a). g k * a) nb) = (0::real)"
  by (induction nb) (auto simp: all_zero_def)

lemma quiet_learning:
  "all_zero nb \<Longrightarrow> homeodynamic_learning n nb = n"
  by (simp add: homeodynamic_learning_def Let_def all_zero_dict_get comp_def)

lemma quiet_update_activation:
  "all_zero nb \<Longrightarrow> activation (update_energy n [] nb) = 0"
  by (simp add: update_energy_def Let_def all_zero_weighted_sum)

lemma quiet_node_pass:
  assumes "all_zero snap"
  shows "incoming_weights (node_pass [] snap n) = incoming_weights n"
    and "activation (node_pass [] snap n) = 0"
  using assms
  by (simp_all add: node_pass_def Let_def quiet_learning all_zero_neighbor_states
        quiet_update_activation)

lemma quiet_steps:
  "list_all (\<lambda>n. activation n = 0) (nodes e) \<Longrightarrow>
   map incoming_weights (nodes (run_steps e (replicate m None))) = map incoming_weights (nodes e)"
proof (induction m arbitrary: e)
  case 0
  then show ?case by simp
next
  case (Suc m)
  let ?e = "fst (update_reservoir_state e None)"
  have z: "all_zero (activation_snapshot (nodes e))"
    using Suc.prems by (rule all_zero_snapshot)
  have a: "list_all (\<lambda>n. activation n = 0) (nodes ?e)"
    by (simp add: nodes_update_reservoir_state list_all_iff quiet_node_pass(2) [OF z])
  have w: "map incoming_weights (nodes ?e) = map incoming_weights (nodes e)"
    by (simp add: nodes_update_reservoir_state quiet_node_pass(1) [OF z] comp_def)
  show ?case using Suc.IH [OF a] w by simp
qed

lemma build_engine_quiet: "list_all (\<lambda>n. activation n = 0) (nodes (build_engine cfg rng))"
  using build_engine_node [of _ cfg rng] by (fastforce simp: list_all_iff)

lemma upt_2: "[0..<2] = [0, Suc 0]"
  by (simp add: upt_rec)

lemma norm_diff_self [simp]: "norm_diff a a = 0"
  by (induction a) (simp_all add: norm_diff_def)

lemma two_node_weights:
  "position_draw rng = (\<lambda>i k. 0) \<Longrightarrow>
   map incoming_weights (nodes (build_engine two_node_config rng))
     = [[(1, incoming_normal rng 0 1)], [(0, incoming_normal rng 1 0)]]"
  by (simp add: nodes_build_engine two_node_config_def BasalReservoirConfig_default_def upt_2
      build_spatial_connectivity_def initialize_node_weights_def node_init_def Let_def dict_set_def)

lemma init_two_node_config:
  "BasalReservoirEngine_init two_node_config rng = Inr (build_engine two_node_config rng)"
  by (simp add: BasalReservoirEngine_init_def two_node_config_def BasalReservoirConfig_default_def)

lemma heavy_weights:
  "map incoming_weights (nodes (run_steps (build_engine two_node_config heavy_rng) (replicate 3 None)))
     = [[(1, 3)], [(0, 3)]]"
  using quiet_steps [OF build_engine_quiet, of two_node_config heavy_rng 3]
        two_node_weights [of heavy_rng]
  by (simp add: heavy_rng_def example_rng_def)


lemma learn_item_keys: "map fst (learn_item rate err tw item w) = map fst w"
  by (cases item) (auto simp: learn_item_def Let_def dict_set_def dict_has_def update_keys
        map_of_eq_None_iff)

lemma fold_learn_keys: "map fst (fold (learn_item rate err tw) items w) = map fst w"
  by (induction items arbitrary: w) (simp_all add: learn_item_keys)

lemma node_pass_keys: "map fst (incoming_weights (node_pass ext snap n)) = map fst (incoming_weights n)"
  by (simp add: node_pass_def Let_def homeodynamic_learning_def fold_learn_keys)

lemma run_steps_keys:
  "map (\<lambda>n. map fst (incoming_weights n)) (nodes (run_steps e xs))
     = map (\<lambda>n. map fst (incoming_weights n)) (nodes e)"
proof (induction xs arbitrary: e)
  case Nil
  then show ?case by simp
next
  case (Cons x xs)
  show ?case
    by (simp add: Cons.IH nodes_update_reservoir_state node_pass_keys comp_def)
qed


section \<open>Construction\<close>

lemma BasalReservoirConfig_init_no_kwargs:
  "BasalReservoirConfig_init no_kwargs = Inr BasalReservoirConfig_default"
  by (simp add: BasalReservoirConfig_init_def no_kwargs_def or_default_def
        BasalReservoirConfig_default_def)

lemma engine_config_build_engine [simp]: "engine_config (build_engine cfg rng) = cfg"
  by (simp add: build_engine_def Let_def)

text \<open>
  C4.  The claim is that the integrator constructed without a configuration never raises
  and has an engine with the defaults of \<^verbatim>\<open>BasalReservoirConfig\<close>.  The code at this
  input: the constructor passes the keyword \<^verbatim>\<open>soulmath_coupling\<close>, which is no field
  of the dataclass (the field is \<^verbatim>\<open>coherence_coupling\<close>), so the call raises
  \<^verbatim>\<open>TypeError\<close>; the other keywords ask for 80 nodes, learning rate 0.02 and
  adaptation rate 0.002.
\<close>

theorem integrator_without_config_raises:
  "GCTBasalIntegrator_init None None example_rng = Inl TypeError
   \<and> kw_num_nodes integrator_default_kwargs = Some 80
   \<and> kw_learning_rate integrator_default_kwargs = Some 0.02
   \<and> kw_adaptation_rate integrator_default_kwargs = Some 0.002"
  by (simp add: GCTBasalIntegrator_init_def BasalReservoirConfig_init_def
        integrator_default_kwargs_def no_kwargs_def)

text \<open>
  \<^verbatim>\<open>BasalReservoirConfig()\<close> has the defaults 100 nodes, dimension 2, learning rate
  0.01, energy decay 0.95, connection radius 0.3, homeodynamic strength 0.1, coherence
  coupling 0.05, adaptation rate 0.001 and prediction horizon 10.  The factory
  \<^verbatim>\<open>create_basal_reservoir_engine\<close> without a configuration, and the integrator given
  that configuration, are constructed without an exception, with an engine of 100 nodes;
  the integration strength is a parameter of the integrator, 0.3 when left out.
\<close>

lemma default_construction:
  "BasalReservoirConfig_init no_kwargs =
     Inr \<lparr>num_nodes = 100, spatial_dimension = 2, learning_rate = 0.01, energy_decay = 0.95,
          connection_radius = 0.3, homeodynamic_strength = 0.1, coherence_coupling = 0.05,
          adaptation_rate = 0.001, prediction_horizon = 10\<rparr>
   \<and> (\<exists>e. create_basal_reservoir_engine None rng = Inr e
          \<and> engine_config e = BasalReservoirConfig_default \<and> length (nodes e) = 100)
   \<and> (\<exists>s. GCTBasalIntegrator_init (Some BasalReservoirConfig_default) None rng = Inr s
          \<and> engine_config (basal_engine s) = BasalReservoirConfig_default
          \<and> length (nodes (basal_engine s)) = 100
          \<and> integration_strength s = 0.3)
   \<and> kw_num_nodes integrator_default_kwargs = Some 80
   \<and> kw_learning_rate integrator_default_kwargs = Some 0.02
   \<and> kw_adaptation_rate integrator_default_kwargs = Some 0.002"
proof (intro conjI)
  show "BasalReservoirConfig_init no_kwargs =
     Inr \<lparr>num_nodes = 100, spatial_dimension = 2, learning_rate = 0.01, energy_decay = 0.95,
          connection_radius = 0.3, homeodynamic_strength = 0.1, coherence_coupling = 0.05,
          adaptation_rate = 0.001, prediction_horizon = 10\<rparr>"
    by (simp add: BasalReservoirConfig_init_def no_kwargs_def or_default_def)
next
  have n: "nat (num_nodes BasalReservoirConfig_default) = 100"
    by (simp add: BasalReservoirConfig_default_def)
  show "\<exists>e. create_basal_reservoir_engine None rng = Inr e
          \<and> engine_config e = BasalReservoirConfig_default \<and> length (nodes e) = 100"
    by (simp add: create_basal_reservoir_engine_def init_default_config n)
  show "\<exists>s. GCTBasalIntegrator_init (Some BasalReservoirConfig_default) None rng = Inr s
          \<and> engine_config (basal_engine s) = BasalReservoirConfig_default
          \<and> length (nodes (basal_engine s)) = 100
          \<and> integration_strength s = 0.3"
    by (simp add: GCTBasalIntegrator_init_def init_default_config n or_default_def)
qed (simp_all add: integrator_default_kwargs_def no_kwargs_def)

section \<open>Symbolic frequency and prediction\<close>

lemma argmax_from_spec:
  assumes "best < length pre" "bv = pre ! best"
    and "\<forall>j < length pre. pre ! j \<le> bv" "\<forall>j < best. pre ! j < bv"
  shows "argmax_from (length pre) best bv xs < length (pre @ xs)
     \<and> (\<forall>j < length (pre @ xs). (pre @ xs) ! j \<le> (pre @ xs) ! argmax_from (length pre) best bv xs)
     \<and> (\<forall>j < argmax_from (length pre) best bv xs.
           (pre @ xs) ! j < (pre @ xs) ! argmax_from (length pre) best bv xs)"
  using assms
proof (induction xs arbitrary: pre best bv)
  case Nil
  then show ?case by simp
next
  case (Cons x xs)
  show ?case
  proof (cases "x > bv")
    case True
    have "argmax_from (length (pre @ [x])) (length pre) x xs < length ((pre @ [x]) @ xs)
     \<and> (\<forall>j < length ((pre @ [x]) @ xs). ((pre @ [x]) @ xs) ! j \<le> ((pre @ [x]) @ xs) ! argmax_from (length (pre @ [x])) (length pre) x xs)
     \<and> (\<forall>j < argmax_from (length (pre @ [x])) (length pre) x xs.
           ((pre @ [x]) @ xs) ! j < ((pre @ [x]) @ xs) ! argmax_from (length (pre @ [x])) (length pre) x xs)"
    proof (rule Cons.IH)
      show "length pre < length (pre @ [x])" by simp
      show "x = (pre @ [x]) ! length pre" by simp
      show "\<forall>j<length (pre @ [x]). (pre @ [x]) ! j \<le> x"
        using Cons.prems(3) True by (auto simp: nth_append less_Suc_eq intro: less_imp_le order_trans)
      show "\<forall>j<length pre. (pre @ [x]) ! j < x"
        using Cons.prems(3) True by (auto simp: nth_append intro: le_less_trans)
    qed
    then show ?thesis using True by simp
  next
    case False
    have "argmax_from (length (pre @ [x])) best bv xs < length ((pre @ [x]) @ xs)
     \<and> (\<forall>j < length ((pre @ [x]) @ xs). ((pre @ [x]) @ xs) ! j \<le> ((pre @ [x]) @ xs) ! argmax_from (length (pre @ [x])) best bv xs)
     \<and> (\<forall>j < argmax_from (length (pre @ [x])) best bv xs.
           ((pre @ [x]) @ xs) ! j < ((pre @ [x]) @ xs) ! argmax_from (length (pre @ [x])) best bv xs)"
    proof (rule Cons.IH)
      show "best < length (pre @ [x])" using Cons.prems(1) by simp
      show "bv = (pre @ [x]) ! best" using Cons.prems(1,2) by (simp add: nth_append)
      show "\<forall>j<length (pre @ [x]). (pre @ [x]) ! j \<le> bv"
        using Cons.prems(3) False by (auto simp: nth_append less_Suc_eq)
      show "\<forall>j<best. (pre @ [x]) ! j < bv"
        using Cons.prems(1,4) by (auto simp: nth_append)
    qed
    then show ?thesis using False by simp
  qed
qed

lemma np_argmax_spec:
  assumes "ys \<noteq> []"
  shows "\<exists>r. np_argmax ys = Inr r \<and> r < length ys \<and> (\<forall>j < length ys. ys ! j \<le> ys ! r)
            \<and> (\<forall>j < r. ys ! j < ys ! r)"
proof -
  obtain y rest where ys: "ys = y # rest" using assms by (cases ys) auto
  show ?thesis
    using argmax_from_spec [of 0 "[y]" y rest] by (simp add: ys np_argmax_def)
qed

lemma length_np_fft [simp]: "length (np_fft xs) = length xs"
  by (simp add: np_fft_def)

lemma length_last_n: "length (last_n n xs) = min n (length xs)"
  by (simp add: last_n_def)

lemma symbolic_frequency_dominant:
  assumes "5 \<le> length (coherence_history e)"
  shows "\<exists>k. is_dominant_frequency (last_n 20 (coherence_history e)) k
           \<and> compute_symbolic_frequency e
               = Inr (min 1 (real k / real (length (last_n 20 (coherence_history e))) * 5))"
proof -
  let ?xs = "last_n 20 (coherence_history e)"
  let ?p = "map cmod (np_fft ?xs)"
  let ?ys = "drop 1 (take (length ?p div 2) ?p)"
  have n5: "5 \<le> length ?xs" using assms by (simp add: length_last_n)
  have lys: "length ?ys = length ?xs div 2 - 1" by simp
  have "2 \<le> length ?xs div 2" using n5 by presburger
  then have "0 < length ?ys" using lys by linarith
  then have "?ys \<noteq> []" by fastforce
  then obtain r where r: "np_argmax ?ys = Inr r" "r < length ?ys"
      "\<forall>j < length ?ys. ?ys ! j \<le> ?ys ! r" "\<forall>j < r. ?ys ! j < ?ys ! r"
    using np_argmax_spec by blast
  have nth: "\<And>j. j < length ?ys \<Longrightarrow> ?ys ! j = cmod (np_fft ?xs ! (j + 1))"
    by simp
  have dom: "is_dominant_frequency ?xs (r + 1)"
    unfolding is_dominant_frequency_def
  proof (intro conjI ballI)
    show "1 \<le> r + 1" by simp
    show "r + 1 < length ?xs div 2" using r(2) lys by simp
  next
    fix j assume "j \<in> {1..<length ?xs div 2}"
    then have j: "j - 1 < length ?ys" "j - 1 + 1 = j" using lys by auto
    show "cmod (np_fft ?xs ! j) \<le> cmod (np_fft ?xs ! (r + 1))"
      using r(3)[rule_format, OF j(1)] nth[OF j(1)] nth[OF r(2)] j(2) by simp
  next
    fix j assume "j \<in> {1..<r + 1}"
    then have j: "j - 1 < r" "j - 1 + 1 = j" by auto
    then have jl: "j - 1 < length ?ys" using r(2) by linarith
    show "cmod (np_fft ?xs ! j) < cmod (np_fft ?xs ! (r + 1))"
      using r(4)[rule_format, OF j(1)] nth[OF jl] nth[OF r(2)] j(2) by simp
  qed
  have "compute_symbolic_frequency e = Inr (min 1 (real (r + 1) / real (length ?xs) * 5))"
    using assms r(1) by (simp add: compute_symbolic_frequency_def Let_def)
  then show ?thesis using dom by blast
qed

lemma compute_symbolic_frequency_total:
  "\<exists>F. compute_symbolic_frequency e = Inr F"
proof (cases "length (coherence_history e) < 5")
  case True
  then show ?thesis by (simp add: compute_symbolic_frequency_def)
next
  case False
  then show ?thesis using symbolic_frequency_dominant [of e] by auto
qed

lemma compute_enhanced_coherence_total:
  "\<exists>c. compute_enhanced_coherence e
          = Inr (e\<lparr>coherence_state := (coherence_state e)\<lparr>gct_psi := c\<rparr>,
                  coherence_history := coherence_history e @ [c]\<rparr>, c)
        \<and> 0 \<le> c \<and> c \<le> 1"
proof -
  obtain F where "compute_symbolic_frequency e = Inr F"
    using compute_symbolic_frequency_total by blast
  then show ?thesis
    using np_clip_bounds [of 0 1]
    by (simp add: compute_enhanced_coherence_def Let_def)
qed

lemma update_reservoir_state_eq:
  "update_reservoir_state e x =
     (e\<lparr>nodes := map (node_pass (case x of None \<Rightarrow> [] | Some d \<Rightarrow> d)
                         (activation_snapshot (nodes e))) (nodes e)\<rparr>,
      map (\<lambda>nd. activation (node_pass (case x of None \<Rightarrow> [] | Some d \<Rightarrow> d)
                         (activation_snapshot (nodes e)) nd)) (nodes e))"
  by (simp add: update_reservoir_state_def Let_def update_loop_all)

lemma sum_list_pos_weights:
  "activations \<noteq> [] \<Longrightarrow> 0 < sum_list (map (\<lambda>a. \<bar>a\<bar> + 0.1) activations :: real list)"
proof -
  assume ne: "activations \<noteq> []"
  have nonneg: "0 \<le> sum_list (map (\<lambda>a. \<bar>a\<bar> + 0.1) xs :: real list)" for xs
    by (rule sum_list_nonneg) auto
  obtain a rest where "activations = a # rest" using ne by (cases activations) auto
  then show ?thesis using nonneg [of rest] by simp
qed

lemma decode_prediction_total:
  "activations \<noteq> [] \<Longrightarrow> \<exists>p. decode_prediction activations c a = Inr p"
  using sum_list_pos_weights [of activations]
  by (simp add: decode_prediction_def np_average_def)

lemma predict_loop_total:
  assumes "nodes e \<noteq> []"
  shows "\<exists>e' ps'. predict_loop market_inputs steps e ps = (e', Inr ps')
            \<and> length ps' = length ps + length steps
            \<and> length (nodes e') = length (nodes e)
            \<and> length (coherence_history e') = length (coherence_history e) + length steps
            \<and> (engine_reachable e \<longrightarrow> engine_reachable e')"
  using assms
proof (induction steps arbitrary: e ps)
  case Nil
  then show ?case by simp
next
  case (Cons step rest)
  let ?x = "if step = 0 then Some market_inputs else None"
  obtain e1 acts where u: "update_reservoir_state e ?x = (e1, acts)"
    by (cases "update_reservoir_state e ?x") auto
  have e1: "e1 = fst (update_reservoir_state e ?x)" using u by simp
  have acts: "length acts = length (nodes e)" "length (nodes e1) = length (nodes e)"
    "coherence_history e1 = coherence_history e"
    using u by (auto simp: update_reservoir_state_eq)
  obtain c where c: "compute_enhanced_coherence e1
          = Inr (e1\<lparr>coherence_state := (coherence_state e1)\<lparr>gct_psi := c\<rparr>,
                  coherence_history := coherence_history e1 @ [c]\<rparr>, c)"
    using compute_enhanced_coherence_total by blast
  let ?e2 = "e1\<lparr>coherence_state := (coherence_state e1)\<lparr>gct_psi := c\<rparr>,
                  coherence_history := coherence_history e1 @ [c]\<rparr>"
  obtain e3 a where an: "compute_anticipation_capacity ?e2 = (e3, a)"
    by (cases "compute_anticipation_capacity ?e2") auto
  have e3: "e3 = fst (compute_anticipation_capacity ?e2)" using an by simp
  have e3f: "nodes e3 = nodes e1" "coherence_history e3 = coherence_history e @ [c]"
    using an acts(3) by (auto simp: compute_anticipation_capacity_def Let_def)
  have "acts \<noteq> []" using acts(1) Cons.prems by auto
  then obtain p where p: "decode_prediction acts c a = Inr p"
    using decode_prediction_total by blast
  have ne3: "nodes e3 \<noteq> []" using e3f(1) acts(2) Cons.prems by auto
  have reach: "engine_reachable e \<longrightarrow> engine_reachable e3"
  proof
    assume "engine_reachable e"
    then have "engine_reachable e1" unfolding e1 by (rule engine_reachable.stepped)
    then have "engine_reachable ?e2" using c by (rule engine_reachable.coherence)
    then show "engine_reachable e3" unfolding e3 by (rule engine_reachable.anticipation)
  qed
  have step: "predict_loop market_inputs (step # rest) e ps
                = predict_loop market_inputs rest e3 (ps @ [p])"
    using u c an p by (cases "step = 0") simp_all
  obtain e' ps' where ih: "predict_loop market_inputs rest e3 (ps @ [p]) = (e', Inr ps')"
      "length ps' = length (ps @ [p]) + length rest"
      "length (nodes e') = length (nodes e3)"
      "length (coherence_history e') = length (coherence_history e3) + length rest"
      "engine_reachable e3 \<longrightarrow> engine_reachable e'"
    using Cons.IH [OF ne3, of "ps @ [p]"] by blast
  have "predict_loop market_inputs (step # rest) e ps = (e', Inr ps')"
    by (simp only: step ih(1))
  moreover have "length ps' = length ps + length (step # rest)" using ih(2) by simp
  moreover have "length (nodes e') = length (nodes e)" using ih(3) e3f(1) acts(2) by simp
  moreover have "length (coherence_history e') = length (coherence_history e) + length (step # rest)"
    using ih(4) e3f(2) by simp
  moreover have "engine_reachable e \<longrightarrow> engine_reachable e'" using ih(5) reach by blast
  ultimately show ?case by blast
qed

text \<open>
  C6.  On an engine with at least one node, \<^verbatim>\<open>predict_market_pattern\<close> returns for
  every series and every non-negative \<open>k\<close> a vector of exactly \<open>k\<close> values, and the
  vector is all zeros when the series has fewer than 10 samples.
\<close>

theorem predict_returns_k_values:
  assumes "nodes e \<noteq> []" and "0 \<le> k"
  shows "\<exists>ps. snd (predict_market_pattern e series k) = Inr ps \<and> length ps = nat k
           \<and> (length series < 10 \<longrightarrow> ps = replicate (nat k) 0)"
proof (cases "length series < 10")
  case True
  then show ?thesis using assms(2) by (simp add: predict_market_pattern_def np_zeros_def)
next
  case False
  obtain e' ps' where
    "predict_loop (encode_market_data e (last_n 10 series)) (py_range k) e [] = (e', Inr ps')"
    "length ps' = length ([]::real list) + length (py_range k)"
    using predict_loop_total [OF assms(1)] by blast
  then show ?thesis
    using False by (simp add: predict_market_pattern_def Let_def py_range_def)
qed

theorem predict_returns_k_values_witness:
  "(\<exists>ps. snd (predict_market_pattern example_engine (replicate 12 1) 3) = Inr ps \<and> length ps = 3)
   \<and> snd (predict_market_pattern example_engine [1, 2, 3] 3) = Inr [0, 0, 0]"
proof -
  have ne: "nodes example_engine \<noteq> []" using length_example_engine by auto
  have k: "(0::int) \<le> 3" by simp
  have a: "\<exists>ps. snd (predict_market_pattern example_engine (replicate 12 1) 3) = Inr ps \<and> length ps = 3"
    using predict_returns_k_values [OF ne k, of "replicate 12 1"] by auto
  have b: "snd (predict_market_pattern example_engine [1, 2, 3] 3) = Inr [0, 0, 0]"
    using predict_returns_k_values [OF ne k, of "[1, 2, 3]"]
    by (auto simp: numeral_3_eq_3)
  show ?thesis using a b by blast
qed

lemma engine_reachable_f:
  "engine_reachable e \<Longrightarrow> gct_f (coherence_state e) = 0.5"
proof (induction rule: engine_reachable.induct)
  case (constructed cfg rng e)
  then show ?case
    by (auto simp: BasalReservoirEngine_init_def build_engine_def Let_def split: if_splits)
next
  case (stepped e x)
  then show ?case by (simp add: update_reservoir_state_eq)
next
  case (coherence e e' c)
  then show ?case using compute_enhanced_coherence_total [of e] by auto
next
  case (anticipation e)
  then show ?case by (simp add: compute_anticipation_capacity_def Let_def)
qed

text \<open>
  C5, amended.  In an engine the code can hold, the symbolic-frequency term is 0.5, the
  field \<^verbatim>\<open>f\<close> of the coherence state that the constructor sets and nothing changes,
  whenever fewer than 5 coherence values have been recorded; otherwise it is
  \<open>min 1 (5 k / n)\<close> for the dominant frequency \<open>k\<close> of the last 20 recorded values,
  \<open>n\<close> of them.
\<close>

theorem symbolic_frequency_cases:
  assumes "engine_reachable e"
  shows "(length (coherence_history e) < 5 \<longrightarrow> compute_symbolic_frequency e = Inr 0.5)
       \<and> (5 \<le> length (coherence_history e) \<longrightarrow>
            (\<exists>k. is_dominant_frequency (last_n 20 (coherence_history e)) k
               \<and> compute_symbolic_frequency e
                    = Inr (min 1 (real k / real (length (last_n 20 (coherence_history e))) * 5))))"
  using engine_reachable_f [OF assms] symbolic_frequency_dominant [of e]
  by (simp add: compute_symbolic_frequency_def)

text \<open>
  C5 as stated fails: a freshly constructed engine has recorded no coherence value, and
  its symbolic-frequency term is 0.5, not 0.
\<close>

theorem symbolic_frequency_not_zero:
  "length (coherence_history example_engine) < 5
   \<and> compute_symbolic_frequency example_engine = Inr 0.5
   \<and> compute_symbolic_frequency example_engine \<noteq> Inr 0"
  by (simp add: compute_symbolic_frequency_def example_engine_def build_engine_def Let_def)

lemma example_engine_reachable: "engine_reachable example_engine"
  unfolding example_engine_def
  by (rule engine_reachable.constructed, rule init_default_config)

theorem symbolic_frequency_cases_witness:
  "compute_symbolic_frequency example_engine = Inr 0.5
   \<and> (\<exists>k. is_dominant_frequency
             (last_n 20 (coherence_history (fst (predict_market_pattern example_engine (replicate 10 0) 6)))) k
          \<and> compute_symbolic_frequency (fst (predict_market_pattern example_engine (replicate 10 0) 6))
               = Inr (min 1 (real k / real (length (last_n 20 (coherence_history
                      (fst (predict_market_pattern example_engine (replicate 10 0) 6))))) * 5)))"
proof -
  let ?e = "fst (predict_market_pattern example_engine (replicate 10 0) 6)"
  have h0: "coherence_history example_engine = []"
    by (simp add: example_engine_def build_engine_def Let_def)
  have ne: "nodes example_engine \<noteq> []" using length_example_engine by auto
  obtain e' ps' where l:
    "predict_loop (encode_market_data example_engine (last_n 10 (replicate 10 0))) (py_range 6)
        example_engine [] = (e', Inr ps')"
    "length (coherence_history e') = length (coherence_history example_engine) + length (py_range 6)"
    "engine_reachable example_engine \<longrightarrow> engine_reachable e'"
    using predict_loop_total [OF ne] by blast
  have e: "?e = e'" using l(1) by (simp add: predict_market_pattern_def Let_def)
  have r: "engine_reachable ?e" using l(3) example_engine_reachable e by simp
  have len: "length (coherence_history ?e) = 6" using l(2) e h0 by (simp add: py_range_def)
  show ?thesis
    using symbolic_frequency_cases [OF example_engine_reachable] symbolic_frequency_cases [OF r]
      h0 len
    by simp
qed

section \<open>Properties of the integrator\<close>

lemma in_unit_clip [simp]: "in_unit (np_clip x 0 1)"
  using np_clip_bounds [of 0 1 x] by (simp add: in_unit_def)

lemma in_unit_tanh [simp]: "in_unit ((tanh (x::real) + 1) / 2)"
  using tanh_real_lt_1 [of x] tanh_real_gt_neg1 [of x] by (simp add: in_unit_def)

lemma in_unit_half [simp]: "in_unit (5 / 10)" "in_unit (1 / 2)" "in_unit 0"
  by (simp_all add: in_unit_def)

lemma compute_traditional_gct_unit:
  "compute_traditional_gct s d = Inr t \<Longrightarrow> unit_gct t"
  by (auto simp: compute_traditional_gct_def Let_def unit_gct_def split: if_splits sum.splits)

lemma integrate_coherence_approaches_unit:
  "unit_gct (integrate_coherence_approaches s t c a)"
  by (simp add: integrate_coherence_approaches_def Let_def unit_gct_def)

lemma in_unit_resonance: "in_unit (((if c then tanh (x::real) else 0) + 1) / 2)"
  using in_unit_tanh [of x] by (cases c) (simp_all add: in_unit_def)

lemma compute_symbolic_resonance_unit:
  "compute_symbolic_resonance s d acts = Inr r \<Longrightarrow> in_unit r"
  unfolding compute_symbolic_resonance_def Let_def
  by (auto simp only: in_unit_resonance sum.inject sum.distinct sum.case split: sum.splits)

lemma compute_prediction_confidence_unit:
  "in_unit (snd (compute_prediction_confidence s m))"
  by (auto simp: compute_prediction_confidence_def Let_def split: prod.splits sum.splits)

lemma compute_adaptation_efficiency_unit:
  "in_unit (compute_adaptation_efficiency s)"
  by (simp add: compute_adaptation_efficiency_def Let_def)

lemma create_fallback_result_unit: "unit_result (create_fallback_result d now)"
  by (simp add: create_fallback_result_def unit_result_def unit_gct_def Let_def)

lemma process_body_stages:
  "process_body s now d en =
     (case compute_traditional_gct (history_step s d) d of
        Inl err \<Rightarrow> (history_step s d, Inl err)
      | Inr traditional \<Rightarrow>
          (case encode_market_signals (history_step s d) d of
             Inl err \<Rightarrow> (history_step s d, Inl err)
           | Inr inputs \<Rightarrow>
               (case engine_stage (basal_engine (history_step s d)) inputs of
                  (e1, Inl err) \<Rightarrow> ((history_step s d)\<lparr>basal_engine := e1\<rparr>, Inl err)
                | (e3, Inr (activations, basal_coherence, anticipation)) \<Rightarrow>
                    finish_stage ((history_step s d)\<lparr>basal_engine := e3\<rparr>) now d en traditional
                      (prepare_market_data_for_reservoir (history_step s d))
                      activations basal_coherence anticipation)))"
  unfolding process_body_def engine_stage_def finish_stage_def build_result_def log_result_def
    Let_def history_step_def [symmetric]
  by (simp split: sum.splits prod.splits)

lemma example_integrator_init:
  "GCTBasalIntegrator_init (Some BasalReservoirConfig_default) None example_rng = Inr example_integrator"
  by (simp add: GCTBasalIntegrator_init_def init_default_config example_integrator_def
        example_engine_def or_default_def)

lemma compute_prediction_confidence_frame [simp]:
  "market_history (fst (compute_prediction_confidence s m)) = market_history s"
  "integration_strength (fst (compute_prediction_confidence s m)) = integration_strength s"
  "coherence_results (fst (compute_prediction_confidence s m)) = coherence_results s"
  by (simp_all add: compute_prediction_confidence_def Let_def split: prod.splits sum.splits)

lemma update_performance_metrics_frame:
  assumes "update_performance_metrics s r = Inr s'"
  shows "market_history s' = market_history s" "integration_strength s' = integration_strength s"
    "basal_engine s' = basal_engine s" "coherence_results s' = coherence_results s"
  using assms
  by (auto simp: update_performance_metrics_def Let_def split: if_splits sum.splits)

lemma log_result_frame [simp]:
  "market_history (log_result s r) = market_history s"
  "integration_strength (log_result s r) = integration_strength s"
  "basal_engine (log_result s r) = basal_engine s"
  by (simp_all add: log_result_def)

lemma build_result_fields [simp]:
  "traditional_gct (build_result s3 now t e a c r) = t"
  "basal_enhanced_gct (build_result s3 now t e a c r) = e"
  "anticipation_capacity (build_result s3 now t e a c r) = a"
  "prediction_confidence (build_result s3 now t e a c r) = c"
  "symbolic_resonance (build_result s3 now t e a c r) = r"
  "adaptation_efficiency (build_result s3 now t e a c r) = compute_adaptation_efficiency s3"
  "timestamp (build_result s3 now t e a c r) = now"
  by (simp_all add: build_result_def)

lemma finish_stage_history:
  "market_history (fst (finish_stage s2 now d en t m acts c a)) = market_history s2"
  by (auto simp: finish_stage_def case_prod_beta update_performance_metrics_frame
      split: sum.splits)

lemma finish_stage_result:
  assumes "snd (finish_stage s2 now d en t m acts c a) = Inr r"
  shows "traditional_gct r = t"
    and "basal_enhanced_gct r = integrate_coherence_approaches s2 t c a"
    and "anticipation_capacity r = a"
    and "in_unit (prediction_confidence r)"
    and "in_unit (symbolic_resonance r)"
    and "in_unit (adaptation_efficiency r)"
    and "timestamp r = now"
  using assms compute_prediction_confidence_unit [of s2 m]
  by (auto simp: finish_stage_def case_prod_beta compute_symbolic_resonance_unit
      compute_adaptation_efficiency_unit split: sum.splits)

lemma engine_stage_cases:
  obtains (failed) e1 err where "engine_stage e inputs = (e1, Inl err)"
  | (ran) e3 acts c a where "engine_stage e inputs = (e3, Inr (acts, c, a))"
  by (cases "engine_stage e inputs") (auto, metis sum.exhaust_sel prod.collapse)

lemma history_step_frame [simp]:
  "integration_strength (history_step s d) = integration_strength s"
  "basal_engine (history_step s d) = basal_engine s"
  "coherence_results (history_step s d) = coherence_results s"
  by (simp_all add: history_step_def)

text \<open>What the body of the try block returns, case by case.\<close>

lemma process_body_cases:
  obtains (raised) s' err where "process_body s now d en = (s', Inl err)"
      "market_history s' = market_history (history_step s d)"
  | (returned) s' r t e3 c a where "process_body s now d en = (s', Inr r)"
      "market_history s' = market_history (history_step s d)"
      "compute_traditional_gct (history_step s d) d = Inr t"
      "traditional_gct r = t"
      "basal_enhanced_gct r
         = integrate_coherence_approaches ((history_step s d)\<lparr>basal_engine := e3\<rparr>) t c a"
      "in_unit (prediction_confidence r)" "in_unit (symbolic_resonance r)"
      "in_unit (adaptation_efficiency r)" "timestamp r = now"
proof (cases "compute_traditional_gct (history_step s d) d")
  case (Inl err)
  then show ?thesis using raised by (simp add: process_body_stages)
next
  case t: (Inr t)
  show ?thesis
  proof (cases "encode_market_signals (history_step s d) d")
    case (Inl err)
    then show ?thesis using raised t by (simp add: process_body_stages)
  next
    case i: (Inr inputs)
    show ?thesis
    proof (cases "basal_engine (history_step s d)" inputs rule: engine_stage_cases)
      case (failed e1 err)
      then show ?thesis using raised t i by (simp add: process_body_stages)
    next
      case (ran e3 acts c a)
      let ?f = "finish_stage ((history_step s d)\<lparr>basal_engine := e3\<rparr>) now d en t
                  (prepare_market_data_for_reservoir (history_step s d)) acts c a"
      have pb: "process_body s now d en = ?f"
        using t i ran by (simp add: process_body_stages)
      have h: "market_history (fst ?f) = market_history (history_step s d)"
        by (simp add: finish_stage_history)
      show ?thesis
      proof (cases "snd ?f")
        case (Inl err)
        then have "process_body s now d en = (fst ?f, Inl err)"
          using pb by (metis prod.collapse)
        then show ?thesis using raised h by blast
      next
        case (Inr r)
        then have "process_body s now d en = (fst ?f, Inr r)"
          using pb by (metis prod.collapse)
        then show ?thesis
          using returned [of "fst ?f" r t e3 c a] h t finish_stage_result [OF Inr] by blast
      qed
    qed
  qed
qed

lemma process_unit: "unit_result (snd (process_market_data_stream s now d en))"
proof (cases rule: process_body_cases [of s now d en])
  case (raised s' err)
  then show ?thesis
    by (simp add: process_market_data_stream_def create_fallback_result_unit)
next
  case (returned s' r t e3 c a)
  have "unit_gct t" using returned(3) by (rule compute_traditional_gct_unit)
  then have "unit_result r"
    using returned(4-8) by (simp add: unit_result_def integrate_coherence_approaches_unit)
  then show ?thesis using returned(1) by (simp add: process_market_data_stream_def)
qed

lemma length_process_stream [simp]: "length (process_stream s stream) = length stream"
  by (induction stream arbitrary: s) (auto split: prod.splits)

lemma process_stream_unit: "r \<in> set (process_stream s stream) \<Longrightarrow> unit_result r"
proof (induction stream arbitrary: s)
  case Nil
  then show ?case by simp
next
  case (Cons x stream)
  obtain now d where x: "x = (now, d)" by (cases x)
  obtain s' r' where p: "process_market_data_stream s now d True = (s', r')"
    by (cases "process_market_data_stream s now d True")
  have "unit_result r'" using process_unit [of s now d True] p by simp
  then show ?case using Cons x p by auto
qed

text \<open>
  C1, amended.  In real arithmetic, that is, as long as no floating-point operation
  overflows or yields NaN, every result the integrator returns, with or without
  prediction, on the normal and on the fallback path, for every state of the integrator
  and so for every configuration and every sequence of data points, has all four
  components of the traditional and of the blended vector, the prediction confidence, the
  symbolic resonance and the adaptation efficiency in [0, 1].
\<close>

theorem result_components_in_unit_interval:
  "unit_result (snd (process_market_data_stream s now d enable_prediction))
   \<and> (\<forall>r \<in> set (process_stream s stream). unit_result r)"
  using process_unit process_stream_unit by blast

lemma process_history:
  "market_history (fst (process_market_data_stream s now d en)) = market_history (history_step s d)"
  by (cases rule: process_body_cases [of s now d en])
     (simp_all add: process_market_data_stream_def)

lemma stale_zero_price:
  assumes "market_history s = [d0]" "price d0 = 0"
  shows "process_body s now d en = (history_step s d, Inl ZeroDivisionError)"
proof -
  have h: "market_history (history_step s d) = [d0, d]"
    using assms(1) by (simp add: history_step_def)
  have t: "compute_traditional_gct (history_step s d) d = Inr neutral_gct"
    by (simp add: compute_traditional_gct_def h last_n_def neutral_gct_def)
  have e: "encode_market_signals (history_step s d) d = Inl ZeroDivisionError"
    using assms(2) by (simp add: encode_market_signals_def h py_div_def Let_def)
  show ?thesis by (simp add: process_body_stages t e)
qed

lemma fallback_of_error:
  assumes "snd (process_body s now d en) = Inl err"
  shows "snd (process_market_data_stream s now d en) = create_fallback_result d now"
proof -
  obtain s' where "process_body s now d en = (s', Inl err)"
    using assms by (cases "process_body s now d en") auto
  then show ?thesis by (simp add: process_market_data_stream_def)
qed

text \<open>
  C7.  When the body of the try block raises, \<^verbatim>\<open>process_market_data_stream\<close> returns
  a result all the same: all coherence components of both vectors 0.5, and anticipation,
  prediction confidence, symbolic resonance and adaptation efficiency 0.
\<close>

theorem exception_gives_fallback:
  assumes "snd (process_body s now d enable_prediction) = Inl err"
  shows "traditional_gct (snd (process_market_data_stream s now d enable_prediction)) = neutral_gct
       \<and> basal_enhanced_gct (snd (process_market_data_stream s now d enable_prediction)) = neutral_gct
       \<and> anticipation_capacity (snd (process_market_data_stream s now d enable_prediction)) = 0
       \<and> prediction_confidence (snd (process_market_data_stream s now d enable_prediction)) = 0
       \<and> symbolic_resonance (snd (process_market_data_stream s now d enable_prediction)) = 0
       \<and> adaptation_efficiency (snd (process_market_data_stream s now d enable_prediction)) = 0"
proof -
  have "snd (process_market_data_stream s now d enable_prediction) = create_fallback_result d now"
    using assms by (rule fallback_of_error)
  then show ?thesis
    by (simp add: create_fallback_result_def neutral_gct_def Let_def)
qed

lemma after_zero_price:
  "market_history (fst (process_market_data_stream example_integrator 0 zero_price_point True))
     = [zero_price_point]"
  by (simp add: process_history history_step_def example_integrator_def)

theorem exception_gives_fallback_witness:
  "snd (process_body (fst (process_market_data_stream example_integrator 0 zero_price_point True))
          1 example_point True) = Inl ZeroDivisionError
   \<and> traditional_gct (snd (process_market_data_stream
         (fst (process_market_data_stream example_integrator 0 zero_price_point True))
         1 example_point True)) = neutral_gct
   \<and> prediction_confidence (snd (process_market_data_stream
         (fst (process_market_data_stream example_integrator 0 zero_price_point True))
         1 example_point True)) = 0"
proof -
  have z: "price zero_price_point = 0" by (simp add: zero_price_point_def)
  have b: "snd (process_body (fst (process_market_data_stream example_integrator 0 zero_price_point True))
          1 example_point True) = Inl ZeroDivisionError"
    by (simp add: stale_zero_price [OF after_zero_price z])
  show ?thesis
    using exception_gives_fallback [OF b] b by blast
qed

theorem result_components_in_unit_interval_witness:
  "unit_result (process_stream example_integrator [(0, zero_price_point), (1, example_point)] ! 0)
   \<and> unit_result (process_stream example_integrator [(0, zero_price_point), (1, example_point)] ! 1)
   \<and> process_stream example_integrator [(0, zero_price_point), (1, example_point)] ! 1
        = create_fallback_result example_point 1"
proof -
  let ?rs = "process_stream example_integrator [(0, zero_price_point), (1, example_point)]"
  have m0: "?rs ! 0 \<in> set ?rs" by (rule nth_mem) (simp only: length_process_stream, simp)
  have m1: "?rs ! 1 \<in> set ?rs" by (rule nth_mem) (simp only: length_process_stream, simp)
  have z: "price zero_price_point = 0" by (simp add: zero_price_point_def)
  have "?rs ! 1 = snd (process_market_data_stream
         (fst (process_market_data_stream example_integrator 0 zero_price_point True))
         1 example_point True)"
    by (simp add: case_prod_beta)
  also have "\<dots> = create_fallback_result example_point 1"
    by (rule fallback_of_error [where err = ZeroDivisionError])
       (simp add: stale_zero_price [OF after_zero_price z])
  finally have f: "?rs ! 1 = create_fallback_result example_point 1" .
  show ?thesis
    using result_components_in_unit_interval [of example_integrator 0 zero_price_point True
        "[(0, zero_price_point), (1, example_point)]"] m0 m1 f
    by blast
qed

lemma np_clip_unit: "in_unit x \<Longrightarrow> np_clip x 0 1 = x"
  by (simp add: in_unit_def np_clip_def)

lemma integrate_zero:
  "integration_strength s = 0 \<Longrightarrow> unit_gct t \<Longrightarrow> integrate_coherence_approaches s t c a = t"
  by (simp add: integrate_coherence_approaches_def Let_def unit_gct_def np_clip_unit)

text \<open>
  C3, amended.  With integration strength 0 the blended vector of every returned result
  equals the traditional vector in all four components, rho included.
\<close>

theorem zero_strength_keeps_traditional:
  assumes "integration_strength s = 0"
  shows "basal_enhanced_gct (snd (process_market_data_stream s now d enable_prediction))
           = traditional_gct (snd (process_market_data_stream s now d enable_prediction))"
proof (cases rule: process_body_cases [of s now d enable_prediction])
  case (raised s' err)
  then show ?thesis
    by (simp add: process_market_data_stream_def create_fallback_result_def Let_def)
next
  case (returned s' r t e3 c a)
  have "unit_gct t" using returned(3) by (rule compute_traditional_gct_unit)
  then have "basal_enhanced_gct r = t"
    using returned(5) assms by (simp add: integrate_zero)
  then show ?thesis using returned(1,4) by (simp add: process_market_data_stream_def)
qed

theorem zero_strength_keeps_traditional_witness:
  "GCTBasalIntegrator_init (Some BasalReservoirConfig_default) (Some 0) example_rng
     = Inr (example_integrator\<lparr>integration_strength := 0\<rparr>)
   \<and> basal_enhanced_gct (snd (process_market_data_stream
         (example_integrator\<lparr>integration_strength := 0\<rparr>) 0 example_point True))
       = traditional_gct (snd (process_market_data_stream
         (example_integrator\<lparr>integration_strength := 0\<rparr>) 0 example_point True))"
proof -
  have i: "integration_strength (example_integrator\<lparr>integration_strength := 0\<rparr>) = 0" by simp
  have c: "GCTBasalIntegrator_init (Some BasalReservoirConfig_default) (Some 0) example_rng
     = Inr (example_integrator\<lparr>integration_strength := 0\<rparr>)"
    by (simp add: GCTBasalIntegrator_init_def init_default_config example_integrator_def
        example_engine_def or_default_def)
  show ?thesis using zero_strength_keeps_traditional [OF i] c by blast
qed

lemma quiet_update_energy:
  "all_zero nb \<Longrightarrow>
   energy (update_energy n [] nb)
     = np_clip (energy n * energy_decay (config n) - 0.05 * (energy n - target_energy n)) 0 1"
  by (simp add: update_energy_def Let_def all_zero_weighted_sum)

lemma short_history_adapt:
  "length (energy_history n) < 10 \<Longrightarrow> adapt_target_energy n = n"
  by (simp add: adapt_target_energy_def)

lemma length_history_update_energy:
  "length (energy_history n) = length (activation_history n) \<Longrightarrow> length (energy_history n) < 9 \<Longrightarrow>
   length (energy_history (update_energy n ext nb)) < 10"
  by (simp add: update_energy_def Let_def)

lemma quiet_node_pass_energy:
  assumes "all_zero snap" "energy_history n = []" "activation_history n = []"
  shows "energy (node_pass [] snap n)
           = np_clip (energy n * energy_decay (config n) - 0.05 * (energy n - target_energy n)) 0 1"
    and "target_energy (node_pass [] snap n) = target_energy n"
proof -
  let ?nb = "neighbor_states_of snap n"
  have z: "all_zero ?nb" using assms(1) by (rule all_zero_neighbor_states)
  have l: "length (energy_history (homeodynamic_learning (update_energy n [] ?nb) ?nb)) < 10"
    using assms(2,3) by (simp add: length_history_update_energy)
  have np: "node_pass [] snap n = homeodynamic_learning (update_energy n [] ?nb) ?nb"
    using short_history_adapt [OF l] by (simp add: node_pass_def Let_def)
  show "energy (node_pass [] snap n)
           = np_clip (energy n * energy_decay (config n) - 0.05 * (energy n - target_energy n)) 0 1"
    by (simp add: np quiet_update_energy [OF z])
  show "target_energy (node_pass [] snap n) = target_energy n"
    by (simp add: np)
qed

lemma initialize_node_weights_histories [simp]:
  "energy_history (initialize_node_weights rng adj i n) = energy_history n"
  "activation_history (initialize_node_weights rng adj i n) = activation_history n"
  by (simp_all add: initialize_node_weights_def)

lemma example_engine_node:
  assumes "n \<in> set (nodes example_engine)"
  shows "energy n = 0.5" "target_energy n = 0.5" "energy_decay (config n) = 0.95"
    "energy_history n = []" "activation_history n = []"
proof -
  obtain i where "config n = BasalReservoirConfig_default"
      "energy n = energy_draw example_rng i" "target_energy n = target_draw example_rng i"
    using build_engine_node [of n BasalReservoirConfig_default example_rng] assms
    by (auto simp: example_engine_def)
  then show "energy n = 0.5" "target_energy n = 0.5" "energy_decay (config n) = 0.95"
    by (simp_all add: example_rng_def BasalReservoirConfig_default_def)
  show "energy_history n = []" "activation_history n = []"
    using assms by (auto simp: example_engine_def nodes_build_engine node_init_def)
qed

lemma constant_deviation_sum:
  "\<forall>n \<in> set ns. energy n - target_energy n = v \<Longrightarrow>
   sum_list (map (\<lambda>n. energy n - target_energy n) ns) = real (length ns) * v"
  by (induction ns) (simp_all add: algebra_simps)

lemma example_quiet_step_deviation:
  assumes "n \<in> set (nodes (fst (update_reservoir_state example_engine (Some []))))"
  shows "energy n - target_energy n = - 0.025"
proof -
  have z: "all_zero (activation_snapshot (nodes example_engine))"
    unfolding example_engine_def by (rule all_zero_snapshot, rule build_engine_quiet)
  obtain m where m: "m \<in> set (nodes example_engine)"
      "n = node_pass [] (activation_snapshot (nodes example_engine)) m"
    using assms by (auto simp: nodes_update_reservoir_state)
  have "energy n = np_clip (0.5 * 0.95 - 0.05 * (0.5 - 0.5)) 0 1"
    using quiet_node_pass_energy(1) [OF z example_engine_node(4,5) [OF m(1)]]
    by (simp add: m(2) example_engine_node(1-3) [OF m(1)])
  moreover have "target_energy n = 0.5"
    using quiet_node_pass_energy(2) [OF z example_engine_node(4,5) [OF m(1)]]
    by (simp add: m(2) example_engine_node(2) [OF m(1)])
  ultimately show ?thesis by (simp add: np_clip_def)
qed

lemma example_engine_stage:
  "\<exists>e3 acts c. engine_stage example_engine [] = (e3, Inr (acts, c, - 0.125))"
proof -
  let ?e1 = "fst (update_reservoir_state example_engine (Some []))"
  obtain c where c: "compute_enhanced_coherence ?e1
          = Inr (?e1\<lparr>coherence_state := (coherence_state ?e1)\<lparr>gct_psi := c\<rparr>,
                  coherence_history := coherence_history ?e1 @ [c]\<rparr>, c)"
    using compute_enhanced_coherence_total by blast
  let ?e2 = "?e1\<lparr>coherence_state := (coherence_state ?e1)\<lparr>gct_psi := c\<rparr>,
                  coherence_history := coherence_history ?e1 @ [c]\<rparr>"
  have len: "length (nodes example_engine) = 100"
    by (simp add: example_engine_def BasalReservoirConfig_default_def)
  have phi: "phi ?e2 = 0.05"
    by (simp add: update_reservoir_state_eq example_engine_def build_engine_def Let_def
          BasalReservoirConfig_default_def)
  have d: "\<forall>n \<in> set (nodes ?e1). energy n - target_energy n = - 0.025"
    by (simp add: example_quiet_step_deviation)
  have s1: "sum_list (map (\<lambda>n. energy n - target_energy n) (nodes ?e1))
              = real (length (nodes ?e1)) * (- 0.025)"
    by (rule constant_deviation_sum [OF d])
  have l: "real (length (nodes ?e1)) * (- 0.025) = - 2.5" by (simp add: len)
  have s: "sum_list (map (\<lambda>n. energy n - target_energy n) (nodes ?e1)) = - 2.5"
    unfolding s1 l ..
  have a: "snd (compute_anticipation_capacity ?e2) = - 0.125"
    by (simp add: compute_anticipation_capacity_def Let_def phi s)
  have "engine_stage example_engine []
          = (fst (compute_anticipation_capacity ?e2),
             Inr (snd (update_reservoir_state example_engine (Some [])), c,
                  snd (compute_anticipation_capacity ?e2)))"
    by (simp add: engine_stage_def case_prod_beta c)
  then show ?thesis using a by auto
qed

lemma short_history_resonance:
  "length (market_history s) < 3 \<Longrightarrow> compute_symbolic_resonance s d acts = Inr (1 / 2)"
  by (simp add: compute_symbolic_resonance_def Let_def)

lemma short_history_metrics:
  "length (market_history s) < 2 \<Longrightarrow> \<exists>s'. update_performance_metrics s r = Inr s'"
  by (simp add: update_performance_metrics_def Let_def)

lemma short_history_finish:
  assumes "length (market_history s2) < 2"
  shows "\<exists>r. snd (finish_stage s2 now d en t m acts c a) = Inr r
           \<and> traditional_gct r = t
           \<and> basal_enhanced_gct r = integrate_coherence_approaches s2 t c a
           \<and> anticipation_capacity r = a"
proof -
  let ?p = "if en then compute_prediction_confidence s2 m else (s2, 0)"
  let ?r = "build_result (fst ?p) now t (integrate_coherence_approaches s2 t c a) a (snd ?p) (1 / 2)"
  have res: "compute_symbolic_resonance s2 d acts = Inr (1 / 2)"
    using assms by (simp add: short_history_resonance)
  have "length (market_history (log_result (fst ?p) ?r)) < 2"
    using assms by simp
  then obtain s' where "update_performance_metrics (log_result (fst ?p) ?r) ?r = Inr s'"
    using short_history_metrics by blast
  then have "snd (finish_stage s2 now d en t m acts c a) = Inr ?r"
    by (simp add: finish_stage_def res case_prod_beta)
  then show ?thesis by simp
qed

text \<open>
  C3 as stated fails: the anticipation term enters rho multiplied by the integration
  strength.  The default integrator with strength 0 returns for a first data point without
  sentiment the anticipation -0.125, the traditional rho 0.5 and the blended rho 0.5, not
  0.5 - 0.125.
\<close>

theorem zero_strength_rho_not_offset:
  "anticipation_capacity (snd (process_market_data_stream
       (example_integrator\<lparr>integration_strength := 0\<rparr>) 0 quiet_point True)) = - 0.125
   \<and> gct_rho (traditional_gct (snd (process_market_data_stream
       (example_integrator\<lparr>integration_strength := 0\<rparr>) 0 quiet_point True))) = 0.5
   \<and> gct_rho (basal_enhanced_gct (snd (process_market_data_stream
       (example_integrator\<lparr>integration_strength := 0\<rparr>) 0 quiet_point True))) = 0.5"
proof -
  let ?s = "example_integrator\<lparr>integration_strength := 0\<rparr>"
  let ?s1 = "history_step ?s quiet_point"
  have h: "market_history ?s1 = [quiet_point]"
    by (simp add: history_step_def example_integrator_def)
  have t: "compute_traditional_gct ?s1 quiet_point = Inr neutral_gct"
    by (simp add: compute_traditional_gct_def h last_n_def neutral_gct_def)
  have sn: "sentiment quiet_point = None" by (simp add: quiet_point_def)
  have i: "encode_market_signals ?s1 quiet_point = Inr []"
    by (simp add: encode_market_signals_def h Let_def sn)
  have e: "basal_engine example_integrator = example_engine"
    by (simp add: example_integrator_def)
  obtain e3 acts c where st: "engine_stage example_engine [] = (e3, Inr (acts, c, - 0.125))"
    using example_engine_stage by blast
  let ?s2 = "?s1\<lparr>basal_engine := e3\<rparr>"
  have pb: "process_body ?s 0 quiet_point True
              = finish_stage ?s2 0 quiet_point True neutral_gct
                  (prepare_market_data_for_reservoir ?s1) acts c (- 0.125)"
    by (simp add: process_body_stages t i e st)
  have "length (market_history ?s2) < 2" by (simp add: h)
  then obtain r where r: "snd (process_body ?s 0 quiet_point True) = Inr r"
      "traditional_gct r = neutral_gct"
      "basal_enhanced_gct r = integrate_coherence_approaches ?s2 neutral_gct c (- 0.125)"
      "anticipation_capacity r = - 0.125"
    unfolding pb using short_history_finish by blast
  have "snd (process_market_data_stream ?s 0 quiet_point True) = r"
    using r(1)
    by (cases "process_body ?s 0 quiet_point True") (simp add: process_market_data_stream_def)
  then show ?thesis
    using r(2-4)
    by (simp add: neutral_gct_def integrate_coherence_approaches_def Let_def np_clip_def)
qed

lemma last_n_map: "last_n n (map f xs) = map f (last_n n xs)"
  by (simp add: last_n_def drop_map)

lemma wt_fields [simp]:
  "market_history (without_timestamps s) = market_history s"
  "basal_engine (without_timestamps s) = basal_engine s"
  "integration_strength (without_timestamps s) = integration_strength s"
  "prediction_accuracy_tracker (without_timestamps s) = prediction_accuracy_tracker s"
  "coherence_stability_tracker (without_timestamps s) = coherence_stability_tracker s"
  "coherence_results (without_timestamps s) = map without_timestamp (coherence_results s)"
  by (simp_all add: without_timestamps_def)

lemma wt_result_fields [simp]:
  "basal_enhanced_gct (without_timestamp r) = basal_enhanced_gct r"
  "anticipation_capacity (without_timestamp r) = anticipation_capacity r"
  by (simp_all add: without_timestamp_def)

lemma wt_history_step: "history_step (without_timestamps s) d = without_timestamps (history_step s d)"
  by (simp add: history_step_def without_timestamps_def)

lemma wt_engine_update:
  "(without_timestamps s)\<lparr>basal_engine := e\<rparr> = without_timestamps (s\<lparr>basal_engine := e\<rparr>)"
  by (simp add: without_timestamps_def)

lemma wt_traditional: "compute_traditional_gct (without_timestamps s) d = compute_traditional_gct s d"
  by (simp add: compute_traditional_gct_def)

lemma wt_signals: "encode_market_signals (without_timestamps s) d = encode_market_signals s d"
  by (simp add: encode_market_signals_def)

lemma wt_prepare:
  "prepare_market_data_for_reservoir (without_timestamps s) = prepare_market_data_for_reservoir s"
  by (simp add: prepare_market_data_for_reservoir_def)

lemma wt_integrate:
  "integrate_coherence_approaches (without_timestamps s) t c a = integrate_coherence_approaches s t c a"
  by (simp add: integrate_coherence_approaches_def)

lemma wt_resonance:
  "compute_symbolic_resonance (without_timestamps s) d acts = compute_symbolic_resonance s d acts"
  by (simp add: compute_symbolic_resonance_def)

lemma wt_confidence:
  "compute_prediction_confidence (without_timestamps s) m =
     (without_timestamps (fst (compute_prediction_confidence s m)),
      snd (compute_prediction_confidence s m))"
  by (simp add: compute_prediction_confidence_def Let_def without_timestamps_def
      split: prod.splits sum.splits)

lemma wt_efficiency:
  "compute_adaptation_efficiency (without_timestamps s) = compute_adaptation_efficiency s"
  by (simp add: compute_adaptation_efficiency_def Let_def last_n_map take_map comp_def)

lemma wt_build_result:
  "build_result (without_timestamps s3) 0 t e a c r = without_timestamp (build_result s3 now t e a c r)"
  by (simp add: build_result_def wt_efficiency without_timestamp_def)

lemma wt_log_result:
  "log_result (without_timestamps s3) (without_timestamp r) = without_timestamps (log_result s3 r)"
  by (simp add: log_result_def without_timestamps_def map_tl)

lemma wt_metrics:
  "update_performance_metrics (without_timestamps s) (without_timestamp r)
     = map_sum id without_timestamps (update_performance_metrics s r)"
  by (auto simp: update_performance_metrics_def Let_def without_timestamps_def
      split: sum.splits)

lemma wt_finish_stage:
  "finish_stage (without_timestamps s2) 0 d en t m acts c a =
     (without_timestamps (fst (finish_stage s2 now d en t m acts c a)),
      map_sum id without_timestamp (snd (finish_stage s2 now d en t m acts c a)))"
proof (cases "compute_symbolic_resonance s2 d acts")
  case (Inl err)
  then show ?thesis by (simp add: finish_stage_def wt_resonance)
next
  case (Inr res)
  let ?p = "if en then compute_prediction_confidence s2 m else (s2, 0)"
  let ?r = "build_result (fst ?p) now t (integrate_coherence_approaches s2 t c a) a (snd ?p) res"
  have p: "(if en then compute_prediction_confidence (without_timestamps s2) m
            else (without_timestamps s2, 0)) = (without_timestamps (fst ?p), snd ?p)"
    by (simp add: wt_confidence)
  have f: "finish_stage s2 now d en t m acts c a =
             (case update_performance_metrics (log_result (fst ?p) ?r) ?r of
                Inl err \<Rightarrow> (log_result (fst ?p) ?r, Inl err)
              | Inr s5 \<Rightarrow> (s5, Inr ?r))"
    unfolding finish_stage_def Inr sum.case case_prod_beta ..
  have g: "finish_stage (without_timestamps s2) 0 d en t m acts c a =
             (case update_performance_metrics (without_timestamps (log_result (fst ?p) ?r))
                     (without_timestamp ?r) of
                Inl err \<Rightarrow> (without_timestamps (log_result (fst ?p) ?r), Inl err)
              | Inr s5 \<Rightarrow> (s5, Inr (without_timestamp ?r)))"
    unfolding finish_stage_def wt_resonance Inr sum.case p prod.case wt_integrate
      wt_build_result [where now = now] wt_log_result ..
  show ?thesis
    unfolding f g wt_metrics
    by (cases "update_performance_metrics (log_result (fst ?p) ?r) ?r") simp_all
qed

lemma wt_process_body:
  "process_body (without_timestamps s) 0 d en =
     (without_timestamps (fst (process_body s now d en)),
      map_sum id without_timestamp (snd (process_body s now d en)))"
proof (cases "compute_traditional_gct (history_step s d) d")
  case (Inl err)
  then show ?thesis by (simp add: process_body_stages wt_history_step wt_traditional)
next
  case t: (Inr t)
  show ?thesis
  proof (cases "encode_market_signals (history_step s d) d")
    case (Inl err)
    then show ?thesis
      using t by (simp add: process_body_stages wt_history_step wt_traditional wt_signals)
  next
    case i: (Inr inputs)
    show ?thesis
    proof (cases rule: engine_stage_cases [of "basal_engine (history_step s d)" inputs])
      case (failed e1 err)
      then show ?thesis
        using t i
        by (simp add: process_body_stages wt_history_step wt_traditional wt_signals wt_engine_update)
    next
      case (ran e3 acts c a)
      then show ?thesis
        using t i
        by (simp add: process_body_stages wt_history_step wt_traditional wt_signals
              wt_engine_update wt_prepare wt_finish_stage [where now = now])
    qed
  qed
qed

lemma wt_fallback:
  "create_fallback_result d 0 = without_timestamp (create_fallback_result d now)"
  by (simp add: create_fallback_result_def without_timestamp_def Let_def)

lemma wt_process:
  "process_market_data_stream (without_timestamps s) 0 d en =
     (without_timestamps (fst (process_market_data_stream s now d en)),
      without_timestamp (snd (process_market_data_stream s now d en)))"
proof -
  obtain s' x where b: "process_body s now d en = (s', x)"
    by (cases "process_body s now d en")
  show ?thesis
    using wt_process_body [of s d en now]
    by (cases x) (simp_all add: process_market_data_stream_def b wt_fallback [of d now])
qed

lemma zero_clock_data: "zero_clock stream = map (Pair 0) (map snd stream)"
  by (induction stream rule: zero_clock.induct) simp_all

lemma wt_process_stream:
  "process_stream (without_timestamps s) (zero_clock stream)
     = map without_timestamp (process_stream s stream)"
proof (induction stream arbitrary: s)
  case Nil
  then show ?case by simp
next
  case (Cons x stream)
  obtain now d where x: "x = (now, d)" by (cases x)
  show ?case
    by (simp add: x wt_process [of s d True now] Cons.IH case_prod_beta)
qed

text \<open>
  C8, amended.  Two integrators constructed from the same configuration, the same
  integration strength and the same random draws, fed the same data points in the same
  order, return the same results in every field but the time stamp, whatever the clock
  shows at each call.
\<close>

theorem replay_deterministic:
  assumes "GCTBasalIntegrator_init cfg strength rng = Inr s1"
    and "GCTBasalIntegrator_init cfg strength rng = Inr s2"
    and "map snd stream1 = map snd stream2"
  shows "map without_timestamp (process_stream s1 stream1)
           = map without_timestamp (process_stream s2 stream2)"
proof -
  have s: "s1 = s2" using assms(1,2) by simp
  have m: "zero_clock stream1 = zero_clock stream2"
    using assms(3) by (simp only: zero_clock_data)
  show ?thesis
    using wt_process_stream [of s1 stream1] wt_process_stream [of s2 stream2]
    by (simp only: s m)
qed

lemma timestamp_process: "timestamp (snd (process_market_data_stream s now d en)) = now"
  by (cases rule: process_body_cases [of s now d en])
     (simp_all add: process_market_data_stream_def create_fallback_result_def Let_def)

text \<open>
  C8 as stated fails: every result carries \<^verbatim>\<open>datetime.now()\<close> of the moment it is
  built, so two replays at different times return different results.
\<close>

theorem replay_timestamps_differ:
  "process_stream example_integrator [(0, example_point)]
     \<noteq> process_stream example_integrator [(1, example_point)]"
proof
  assume "process_stream example_integrator [(0, example_point)]
            = process_stream example_integrator [(1, example_point)]"
  then have "snd (process_market_data_stream example_integrator 0 example_point True)
               = snd (process_market_data_stream example_integrator 1 example_point True)"
    by (simp add: case_prod_beta)
  then have "timestamp (snd (process_market_data_stream example_integrator 0 example_point True))
               = timestamp (snd (process_market_data_stream example_integrator 1 example_point True))"
    by simp
  then show False by (simp only: timestamp_process)
qed

theorem replay_deterministic_witness:
  "map without_timestamp (process_stream example_integrator [(0, example_point), (5, zero_price_point)])
     = map without_timestamp (process_stream example_integrator [(1, example_point), (9, zero_price_point)])"
  by (rule replay_deterministic [OF example_integrator_init example_integrator_init]) simp

section \<open>Target adaptation after ten quiet steps\<close>

lemma quiet_node_pass_eq:
  assumes "all_zero snap"
  shows "node_pass [] snap n = quiet_pass n"
proof -
  let ?nb = "neighbor_states_of snap n"
  have z: "all_zero ?nb" using assms by (rule all_zero_neighbor_states)
  have u: "update_energy n [] ?nb = update_energy n [] []"
    by (simp add: update_energy_def Let_def all_zero_weighted_sum [OF z])
  show ?thesis
    by (simp add: node_pass_def Let_def quiet_learning [OF z] u quiet_pass_def)
qed

lemma quiet_update_activation0 [simp]: "activation (update_energy n [] []) = 0"
  by (simp add: update_energy_def Let_def)

lemma quiet_pass_activation [simp]: "activation (quiet_pass n) = 0"
  by (simp add: quiet_pass_def)

lemma quiet_run:
  "list_all (\<lambda>n. activation n = 0) (nodes e) \<Longrightarrow>
   nodes (run_steps e (replicate m None))
     = map (quiet_pass ^^ m) (nodes e)"
proof (induction m arbitrary: e)
  case 0
  then show ?case by simp
next
  case (Suc m)
  let ?e = "fst (update_reservoir_state e None)"
  have z: "all_zero (activation_snapshot (nodes e))"
    using Suc.prems by (rule all_zero_snapshot)
  have n: "nodes ?e = map quiet_pass (nodes e)"
    by (simp add: nodes_update_reservoir_state quiet_node_pass_eq [OF z])
  have a: "list_all (\<lambda>n. activation n = 0) (nodes ?e)"
    by (simp add: n list_all_iff)
  have "nodes (run_steps e (replicate (Suc m) None)) = map (quiet_pass ^^ m) (map quiet_pass (nodes e))"
    using Suc.IH [OF a] by (simp add: n)
  also have "\<dots> = map (quiet_pass ^^ Suc m) (nodes e)"
    by (simp only: map_map funpow_Suc_right)
  finally show ?case .
qed

text \<open>One quiet pass at a node whose energy history is shorter than 9.\<close>

lemma quiet_pass_short:
  assumes "length (energy_history n) = length (activation_history n)" "length (energy_history n) < 9"
  shows "quiet_pass n
           = n\<lparr>energy := np_clip (energy n * energy_decay (config n)
                                   - 0.05 * (energy n - target_energy n)) 0 1,
                activation := 0,
                activation_history := activation_history n @ [0],
                energy_history := energy_history n
                   @ [np_clip (energy n * energy_decay (config n)
                                - 0.05 * (energy n - target_energy n)) 0 1]\<rparr>"
  using assms by (simp add: quiet_pass_def adapt_target_energy_def update_energy_def Let_def)

lemma quiet_energy_values:
  "map (quiet_energy 0.5 0.5 0.95) [1..<11] =
     [0.475, 0.4525, 0.43225, 0.414025, 0.3976225, 0.38286025, 0.369574225, 0.3576168025,
      0.34685512225, 0.337169610025]"
  by (simp add: upt_rec eval_nat_numeral np_clip_def)

lemma quiet_energy_variance:
  "np_var (map (quiet_energy 0.5 0.5 0.95) [1..<11]) < 0.01"
  unfolding quiet_energy_values
  by (simp add: np_var_def np_mean_def power2_eq_square)

lemma quiet_iter:
  assumes "energy_history n = []" "activation_history n = []" "k \<le> 9"
  shows "energy ((quiet_pass ^^ k) n)
           = quiet_energy (energy n) (target_energy n) (energy_decay (config n)) k
       \<and> target_energy ((quiet_pass ^^ k) n) = target_energy n
       \<and> config ((quiet_pass ^^ k) n) = config n
       \<and> energy_history ((quiet_pass ^^ k) n)
           = map (quiet_energy (energy n) (target_energy n) (energy_decay (config n))) [1..<Suc k]
       \<and> length (activation_history ((quiet_pass ^^ k) n)) = k"
  using assms(3)
proof (induction k)
  case 0
  then show ?case using assms(1,2) by simp
next
  case (Suc k)
  let ?m = "(quiet_pass ^^ k) n"
  have ih: "energy ?m = quiet_energy (energy n) (target_energy n) (energy_decay (config n)) k"
    "target_energy ?m = target_energy n" "config ?m = config n"
    "energy_history ?m
       = map (quiet_energy (energy n) (target_energy n) (energy_decay (config n))) [1..<Suc k]"
    "length (activation_history ?m) = k"
    using Suc by simp_all
  have l: "length (energy_history ?m) = length (activation_history ?m)"
    "length (energy_history ?m) < 9"
    using ih(4,5) Suc.prems by simp_all
  have u: "[1..<Suc (Suc k)] = [1..<Suc k] @ [Suc k]" by simp
  show ?case
    unfolding funpow.simps comp_def quiet_pass_short [OF l] u
    using ih by simp
qed

lemma quiet_tenth:
  assumes "energy_history n = []" "activation_history n = []"
    and "energy n = 0.5" "target_energy n = 0.5" "energy_decay (config n) = 0.95"
  shows "target_energy ((quiet_pass ^^ 10) n) = max 0.2 (0.5 - adaptation_rate (config n))"
proof -
  let ?m = "(quiet_pass ^^ 9) n"
  let ?E = "quiet_energy 0.5 0.5 0.95"
  have m: "energy ?m = ?E 9" "target_energy ?m = 0.5" "config ?m = config n"
    "energy_history ?m = map ?E [1..<10]" "length (activation_history ?m) = 9"
    using quiet_iter [OF assms(1,2), of 9] assms(3-5) by simp_all
  let ?u = "update_energy ?m [] []"
  have e10: "np_clip (?E 9 * 0.95 - 0.05 * (?E 9 - 0.5)) 0 1 = ?E 10"
    by (simp add: eval_nat_numeral)
  have upt: "[1..<11] = [1..<10] @ [10::nat]"
    using upt_Suc_append [of 1 10] by simp
  have "energy_history ?u
          = energy_history ?m @ [np_clip (energy ?m * energy_decay (config ?m)
                                          - 0.05 * (energy ?m - target_energy ?m)) 0 1]"
    by (simp add: update_energy_def Let_def m(5))
  also have "\<dots> = map ?E [1..<10] @ [?E 10]"
    unfolding m(1-4) assms(5) e10 ..
  also have "\<dots> = map ?E [1..<11]"
    unfolding upt by simp
  finally have h: "energy_history ?u = map ?E [1..<11]" .
  have len: "length (energy_history ?u) = 10" by (simp add: h)
  have v: "np_var (last_n 10 (energy_history ?u)) < 0.01"
    using quiet_energy_variance by (simp add: last_n_def len h)
  have ten: "(quiet_pass ^^ 10) n = quiet_pass ?m"
    by (simp add: eval_nat_numeral)
  have qp: "quiet_pass ?m = adapt_target_energy ?u" by (simp only: quiet_pass_def)
  have "target_energy (adapt_target_energy ?u)
          = max 0.2 (target_energy ?u - adaptation_rate (config ?u))"
    using v len by (simp add: adapt_target_energy_def Let_def)
  also have "\<dots> = max 0.2 (0.5 - adaptation_rate (config n))"
    by (simp add: m(2,3))
  finally show ?thesis by (simp only: ten qp)
qed

lemma build_engine_fresh:
  "n \<in> set (nodes (build_engine cfg rng)) \<Longrightarrow> energy_history n = [] \<and> activation_history n = []"
  by (auto simp: nodes_build_engine node_init_def)

lemma quiet_engine_tenth:
  assumes "energy_decay cfg = 0.95" "0 < num_nodes cfg"
  shows "target_energy (nodes (run_steps (build_engine cfg example_rng) (replicate 10 None)) ! 0)
           = max 0.2 (0.5 - adaptation_rate cfg)"
proof -
  let ?e = "build_engine cfg example_rng"
  have len: "0 < length (nodes ?e)" using assms(2) by simp
  then have mem: "nodes ?e ! 0 \<in> set (nodes ?e)" by (rule nth_mem)
  obtain i where n0: "config (nodes ?e ! 0) = cfg"
      "energy (nodes ?e ! 0) = energy_draw example_rng i"
      "target_energy (nodes ?e ! 0) = target_draw example_rng i"
    using build_engine_node [OF mem] by blast
  have f: "energy_history (nodes ?e ! 0) = []" "activation_history (nodes ?e ! 0) = []"
    using build_engine_fresh [OF mem] by simp_all
  have "nodes (run_steps ?e (replicate 10 None)) ! 0 = (quiet_pass ^^ 10) (nodes ?e ! 0)"
    using len by (simp only: quiet_run [OF build_engine_quiet] nth_map)
  then show ?thesis
    using quiet_tenth [OF f] n0 assms(1) by (simp add: example_rng_def)
qed

text \<open>
  C10 as stated fails: nothing keeps the adaptation rate non-negative.  With the default
  configuration but adaptation rate -1, ten steps without external input leave the energy
  of node 0 nearly constant, and the tenth adaptation sets its target energy to
  \<open>max 0.2 (0.5 + 1) = 1.5\<close>.
\<close>

theorem negative_rate_target_escapes:
  "BasalReservoirEngine_init negative_rate_config example_rng
     = Inr (build_engine negative_rate_config example_rng)
   \<and> target_energy (nodes (run_steps (build_engine negative_rate_config example_rng)
                               (replicate 10 None)) ! 0) = 1.5
   \<and> \<not> target_energy (nodes (run_steps (build_engine negative_rate_config example_rng)
                               (replicate 10 None)) ! 0) \<le> 0.8"
proof -
  have d: "energy_decay negative_rate_config = 0.95" "0 < num_nodes negative_rate_config"
    "adaptation_rate negative_rate_config = - 1"
    by (simp_all add: negative_rate_config_def BasalReservoirConfig_default_def)
  have i: "BasalReservoirEngine_init negative_rate_config example_rng
     = Inr (build_engine negative_rate_config example_rng)"
    by (simp add: BasalReservoirEngine_init_def negative_rate_config_def
          BasalReservoirConfig_default_def)
  have t: "target_energy (nodes (run_steps (build_engine negative_rate_config example_rng)
                               (replicate 10 None)) ! 0) = 1.5"
    by (simp add: quiet_engine_tenth [OF d(1,2)] d(3))
  show ?thesis using i t by simp
qed

theorem target_energy_range_witness:
  "0.2 \<le> target_energy (nodes (run_steps example_engine (replicate 10 None)) ! 0)
   \<and> target_energy (nodes (run_steps example_engine (replicate 10 None)) ! 0) \<le> 0.8
   \<and> target_energy (nodes (run_steps example_engine (replicate 10 None)) ! 0) = 0.499"
proof -
  have init: "BasalReservoirEngine_init BasalReservoirConfig_default example_rng = Inr example_engine"
    unfolding example_engine_def by (rule init_default_config)
  have draws: "\<forall>i. 0.4 \<le> target_draw example_rng i \<and> target_draw example_rng i \<le> 0.6"
    by (simp add: example_rng_def)
  have rate: "0 \<le> adaptation_rate BasalReservoirConfig_default"
    by (simp add: BasalReservoirConfig_default_def)
  have mem: "nodes (run_steps example_engine (replicate 10 None)) ! 0
               \<in> set (nodes (run_steps example_engine (replicate 10 None)))"
    by (rule nth_mem) (simp only: length_nodes_run_steps length_example_engine)
  have d: "energy_decay BasalReservoirConfig_default = 0.95" "0 < num_nodes BasalReservoirConfig_default"
    "adaptation_rate BasalReservoirConfig_default = 0.001"
    by (simp_all add: BasalReservoirConfig_default_def)
  have t: "target_energy (nodes (run_steps example_engine (replicate 10 None)) ! 0) = 0.499"
    unfolding example_engine_def by (simp add: quiet_engine_tenth [OF d(1,2)] d(3))
  show ?thesis
    using target_energy_range [OF init draws rate mem] t by simp
qed

section \<open>Overflow of the traditional psi\<close>

lemma huge_price_bounds:
  "0 < huge_price" "huge_price \<le> max_float" "max_float < huge_price + huge_price"
  by (simp_all add: max_float_def huge_price_def)

lemma fl_of_real_huge [simp]:
  "fl_of_real huge_price = Fin huge_price"
  "fl_of_real (huge_price + huge_price) = PInf"
  "fl_of_real (2 * huge_price) = PInf"
  "fl_of_real (huge_price * 2) = PInf"
  using huge_price_bounds by (simp_all add: fl_of_real_def)

lemma five_prices_mean: "np_mean_fl (replicate 5 (Fin huge_price)) = PInf"
  by (simp add: np_mean_fl_def eval_nat_numeral fl_inf_of_sign_def)

lemma five_prices_std: "np_std_fl (replicate 5 (Fin huge_price)) = PInf"
  unfolding np_std_fl_def five_prices_mean
  by (simp add: np_mean_fl_def eval_nat_numeral fl_sub_def fl_inf_of_sign_def)

text \<open>
  C1 as stated fails: \<^verbatim>\<open>np.clip\<close> passes NaN through.  Five data points with the
  price \<^verbatim>\<open>1e308\<close>, a finite double, overflow the sum in \<^verbatim>\<open>np.mean\<close>; mean and
  standard deviation are infinite, their quotient is NaN, and the traditional psi of the
  result is NaN, with no exception and so no fallback.
\<close>

theorem overflow_gives_nan:
  "0 < huge_price \<and> huge_price \<le> max_float
   \<and> traditional_psi_fl (replicate 5 (Fin huge_price)) = NaN"
proof -
  have w: "last_n 10 (last_n 20 (replicate 5 (Fin huge_price))) = replicate 5 (Fin huge_price)"
    by (simp add: last_n_def)
  have l: "\<not> length (last_n 20 (replicate 5 (Fin huge_price))) < 5"
    by (simp add: last_n_def)
  have "traditional_psi_fl (replicate 5 (Fin huge_price)) = NaN"
    unfolding traditional_psi_fl_def Let_def w five_prices_mean five_prices_std
    using l by simp
  then show ?thesis using huge_price_bounds by simp
qed

lemma clip_is_unit_or_nan:
  "traditional_psi_fl prices = NaN
   \<or> (\<exists>x. traditional_psi_fl prices = Fin x \<and> 0 \<le> x \<and> x \<le> 1)"
proof (cases "length (last_n 20 prices) < 5")
  case True
  then have "traditional_psi_fl prices = Fin 0.5"
    by (simp add: traditional_psi_fl_def)
  then show ?thesis by (intro disjI2 exI [of _ "0.5"]) simp
next
  case False
  have c: "fl_clip y 0 1 = NaN \<or> (\<exists>x. fl_clip y 0 1 = Fin x \<and> 0 \<le> x \<and> x \<le> 1)" for y
    using np_clip_bounds [of 0 1] by (cases y) simp_all
  show ?thesis
    unfolding traditional_psi_fl_def Let_def using c False by simp
qed

text \<open>On ordinary prices the model with overflow agrees with real arithmetic.\<close>

lemma ordinary_prices_psi: "traditional_psi_fl (replicate 5 (Fin 100)) = Fin 1"
proof -
  have r: "fl_of_real x = Fin x" if "\<bar>x\<bar> \<le> 1000" for x
  proof -
    have "(1000::real) \<le> max_float" by (simp add: max_float_def)
    then show ?thesis using that by (simp add: fl_of_real_def abs_le_iff)
  qed
  have m: "np_mean_fl (replicate 5 (Fin 100)) = Fin 100"
    by (simp add: np_mean_fl_def eval_nat_numeral r)
  have s: "np_std_fl (replicate 5 (Fin 100)) = Fin 0"
    unfolding np_std_fl_def m
    by (simp add: np_mean_fl_def eval_nat_numeral fl_sub_def r)
  have w: "last_n 10 (last_n 20 (replicate 5 (Fin 100))) = replicate 5 (Fin 100)"
    by (simp add: last_n_def)
  have l: "\<not> length (last_n 20 (replicate 5 (Fin 100))) < 5"
    by (simp add: last_n_def)
  show ?thesis
    unfolding traditional_psi_fl_def Let_def w m s
    using l by (simp add: r np_clip_def)
qed

end
